theory Spec2Isabelle
  imports Complex_Main "HOL-Library.Multiset"
begin

section \<open>Values shared by the route handlers\<close>

text \<open>
  The five handlers under \<^verbatim>\<open>src/app/api/tools\<close> are embedded as pure functions of
  the query parameters and of what the upstream market-data service answered.
  JavaScript numbers are modelled as real numbers, with rounding error left out. Where
  the source computes NaN or an infinity from such inputs (a threshold that does not
  parse, a price factor read from an inherited member, a division by a zero price),
  the model has the value: see \<open>jsfloat\<close> below. The lookup tables of
  the source are object literals. In the scanner and in the price operation a key that
  names a member inherited from \<^verbatim>\<open>Object.prototype\<close> finds that member, as it does in
  JavaScript (\<open>obj_get\<close>); the tables of the strategy builder and of the planner are
  read through their own keys, as their index-signature types declare. The
  \<^verbatim>\<open>timestamp\<close> and \<^verbatim>\<open>tradeId\<close> fields depend on the clock and are left out.
\<close>

text \<open>A JSON field that is expected to hold a number: absent, \<^verbatim>\<open>null\<close>, or a number.\<close>

datatype jsnum = JUndefined | JNull | JNum real

text \<open>The idiom \<^verbatim>\<open>x || 0\<close> on such a field.\<close>

fun or0 :: "jsnum \<Rightarrow> real" where
  "or0 (JNum r) = r"
| "or0 JNull = 0"
| "or0 JUndefined = 0"

text \<open>An object of the shape \<^verbatim>\<open>{ usd: ... }\<close>; \<^verbatim>\<open>obj?.usd\<close> is \<^verbatim>\<open>undefined\<close> when the object
  itself is missing.\<close>

record usd_obj =
  usd :: jsnum

fun opt_usd :: "usd_obj option \<Rightarrow> jsnum" where
  "opt_usd None = JUndefined"
| "opt_usd (Some obj) = usd obj"

text \<open>\<^verbatim>\<open>Math.round\<close>: the nearest integer, halves towards plus infinity.\<close>

definition math_round :: "real \<Rightarrow> real" where
  "math_round x = real_of_int \<lfloor>x + 1 / 2\<rfloor>"

text \<open>\<^verbatim>\<open>String.prototype.toUpperCase\<close> on ASCII text.\<close>

definition upper_char :: "char \<Rightarrow> char" where
  "upper_char c =
     (case map_of (zip ''abcdefghijklmnopqrstuvwxyz'' ''ABCDEFGHIJKLMNOPQRSTUVWXYZ'') c of
        Some u \<Rightarrow> u
      | None \<Rightarrow> c)"

definition toUpperCase :: "string \<Rightarrow> string" where
  "toUpperCase s = map upper_char s"

text \<open>\<^verbatim>\<open>s.split(",")\<close>: the empty string splits into one empty piece.\<close>

fun split_comma_acc :: "string \<Rightarrow> string \<Rightarrow> string list" where
  "split_comma_acc cur [] = [rev cur]"
| "split_comma_acc cur (c # cs) =
     (if c = CHR '','' then rev cur # split_comma_acc [] cs else split_comma_acc (c # cur) cs)"

definition split_comma :: "string \<Rightarrow> string list" where
  "split_comma s = split_comma_acc [] s"

text \<open>\<^verbatim>\<open>searchParams.get(name) || dflt\<close>: an absent or empty parameter takes the default.\<close>

fun param_or :: "string option \<Rightarrow> string \<Rightarrow> string" where
  "param_or None d = d"
| "param_or (Some s) d = (if s = [] then d else s)"

text \<open>\<^verbatim>\<open>searchParams.get(name)?.split(",") || dflt\<close>: only an absent parameter takes the
  default, since every array is truthy.\<close>

fun list_param_or :: "string option \<Rightarrow> string list \<Rightarrow> string list" where
  "list_param_or None d = d"
| "list_param_or (Some s) d = split_comma s"

text \<open>A failed response: the HTTP status and the \<^verbatim>\<open>error\<close> message of the body.\<close>

datatype error = Err (status_code: nat) (message: string)

text \<open>What the upstream fetch gave: a network failure or a non-success status, a body
  that does not parse as JSON, or the parsed body.\<close>

datatype 'a upstream = Unavailable | Malformed | Body 'a

text \<open>The names that every object literal inherits from \<^verbatim>\<open>Object.prototype\<close>. Each of them
  reads as a function, or as the prototype object for \<^verbatim>\<open>__proto__\<close>: a truthy value that is
  neither a string nor a number.\<close>

definition object_prototype_members :: "string list" where
  "object_prototype_members =
     [''constructor'', ''__defineGetter__'', ''__defineSetter__'', ''hasOwnProperty'',
      ''__lookupGetter__'', ''__lookupSetter__'', ''isPrototypeOf'', ''propertyIsEnumerable'',
      ''toString'', ''valueOf'', ''__proto__'', ''toLocaleString'']"

text \<open>\<^verbatim>\<open>table[key]\<close> on an object literal: the table's own entry, an inherited member, or
  \<^verbatim>\<open>undefined\<close>.\<close>

datatype 'a lookup = Own 'a | Inherited | Absent

definition obj_get :: "(string \<times> 'a) list \<Rightarrow> string \<Rightarrow> 'a lookup" where
  "obj_get table key =
     (case map_of table key of
        Some v \<Rightarrow> Own v
      | None \<Rightarrow> if key \<in> set object_prototype_members then Inherited else Absent)"

text \<open>A JavaScript number where the source can leave the finite values (the result of
  \<^verbatim>\<open>parseFloat\<close>, a price, a spread): a finite value
  (\<open>Fin 0\<close> is the zero with a positive sign), the zero with a negative sign, the two
  infinities and NaN. The operations below are those of IEEE 754 without rounding.\<close>

datatype jsfloat = Fin real | NegZero | PosInf | NegInf | NaN

fun sign_bit :: "jsfloat \<Rightarrow> bool" where
  "sign_bit (Fin r) = (r < 0)"
| "sign_bit NegZero = True"
| "sign_bit PosInf = False"
| "sign_bit NegInf = True"
| "sign_bit NaN = False"

fun is_inf :: "jsfloat \<Rightarrow> bool" where
  "is_inf PosInf = True"
| "is_inf NegInf = True"
| "is_inf x = False"

text \<open>The value of a finite number; used only where neither operand is infinite or NaN.\<close>

fun fin_val :: "jsfloat \<Rightarrow> real" where
  "fin_val (Fin r) = r"
| "fin_val x = 0"

definition is_zero :: "jsfloat \<Rightarrow> bool" where
  "is_zero x = (x = Fin 0 \<or> x = NegZero)"

definition signed_zero :: "bool \<Rightarrow> jsfloat" where
  "signed_zero negative = (if negative then NegZero else Fin 0)"

definition signed_inf :: "bool \<Rightarrow> jsfloat" where
  "signed_inf negative = (if negative then NegInf else PosInf)"

text \<open>\<^verbatim>\<open>x * y\<close>: the sign of a zero or infinite product is the exclusive or of the signs.\<close>

definition js_mul :: "jsfloat \<Rightarrow> jsfloat \<Rightarrow> jsfloat" where
  "js_mul x y =
     (if x = NaN \<or> y = NaN then NaN
      else if is_inf x \<or> is_inf y
        then (if is_zero x \<or> is_zero y then NaN else signed_inf (sign_bit x \<noteq> sign_bit y))
      else if fin_val x * fin_val y = 0 then signed_zero (sign_bit x \<noteq> sign_bit y)
      else Fin (fin_val x * fin_val y))"

text \<open>\<^verbatim>\<open>x / y\<close>: a non-zero number over a zero is an infinity, a zero over a zero is NaN.\<close>

definition js_div :: "jsfloat \<Rightarrow> jsfloat \<Rightarrow> jsfloat" where
  "js_div x y =
     (if x = NaN \<or> y = NaN then NaN
      else if is_inf x then (if is_inf y then NaN else signed_inf (sign_bit x \<noteq> sign_bit y))
      else if is_inf y then signed_zero (sign_bit x \<noteq> sign_bit y)
      else if is_zero y then (if is_zero x then NaN else signed_inf (sign_bit x \<noteq> sign_bit y))
      else if fin_val x = 0 then signed_zero (sign_bit x \<noteq> sign_bit y)
      else Fin (fin_val x / fin_val y))"

text \<open>\<^verbatim>\<open>x + y\<close>: a sum that is zero has the positive sign unless both operands are the
  negative zero.\<close>

definition js_add :: "jsfloat \<Rightarrow> jsfloat \<Rightarrow> jsfloat" where
  "js_add x y =
     (if x = NaN \<or> y = NaN then NaN
      else if is_inf x then (if is_inf y \<and> x \<noteq> y then NaN else x)
      else if is_inf y then y
      else if fin_val x + fin_val y = 0 then signed_zero (x = NegZero \<and> y = NegZero)
      else Fin (fin_val x + fin_val y))"

fun js_neg :: "jsfloat \<Rightarrow> jsfloat" where
  "js_neg (Fin r) = (if r = 0 then NegZero else Fin (- r))"
| "js_neg NegZero = Fin 0"
| "js_neg PosInf = NegInf"
| "js_neg NegInf = PosInf"
| "js_neg NaN = NaN"

definition js_sub :: "jsfloat \<Rightarrow> jsfloat \<Rightarrow> jsfloat" where
  "js_sub x y = js_add x (js_neg y)"

text \<open>\<^verbatim>\<open>x < y\<close>: false when an operand is NaN; the two zeros compare equal.\<close>

fun js_lt :: "jsfloat \<Rightarrow> jsfloat \<Rightarrow> bool" where
  "js_lt NaN y = False"
| "js_lt x NaN = False"
| "js_lt PosInf y = False"
| "js_lt x PosInf = True"
| "js_lt x NegInf = False"
| "js_lt NegInf y = True"
| "js_lt x y = (fin_val x < fin_val y)"

text \<open>\<^verbatim>\<open>x > y\<close>, \<^verbatim>\<open>x >= y\<close> and \<^verbatim>\<open>x === y\<close>.\<close>

definition js_gt :: "jsfloat \<Rightarrow> jsfloat \<Rightarrow> bool" where
  "js_gt x y = js_lt y x"

definition js_ge :: "jsfloat \<Rightarrow> jsfloat \<Rightarrow> bool" where
  "js_ge x y = (x \<noteq> NaN \<and> y \<noteq> NaN \<and> \<not> js_lt x y)"

definition js_eq :: "jsfloat \<Rightarrow> jsfloat \<Rightarrow> bool" where
  "js_eq x y = (x \<noteq> NaN \<and> y \<noteq> NaN \<and> \<not> js_lt x y \<and> \<not> js_lt y x)"

text \<open>\<^verbatim>\<open>Math.min\<close> and \<^verbatim>\<open>Math.max\<close> of two numbers: NaN when an operand is NaN; the negative
  zero is the smaller of the two zeros.\<close>

definition js_min2 :: "jsfloat \<Rightarrow> jsfloat \<Rightarrow> jsfloat" where
  "js_min2 x y =
     (if x = NaN \<or> y = NaN then NaN
      else if js_lt y x then y
      else if js_lt x y then x
      else if y = NegZero then y else x)"

definition js_max2 :: "jsfloat \<Rightarrow> jsfloat \<Rightarrow> jsfloat" where
  "js_max2 x y =
     (if x = NaN \<or> y = NaN then NaN
      else if js_lt x y then y
      else if js_lt y x then x
      else if x = NegZero then y else x)"

section \<open>\<^verbatim>\<open>analyze-momentum/route.ts\<close>\<close>

record market_data =
  price_change_percentage_1h_in_currency :: "usd_obj option"
  price_change_percentage_24h_in_currency :: "usd_obj option"
  price_change_percentage_7d_in_currency :: "usd_obj option"
  total_volume :: "usd_obj option"
  market_cap :: "usd_obj option"
  current_price :: "usd_obj option"
  circulating_supply :: jsnum
  sparkline_7d_price :: "real list option"

record coin_data =
  market_data_of :: "market_data option"

record TimeframeData =
  change :: real
  volume :: real
  trend :: string

record TechnicalData =
  rsi :: real
  volumeProfile :: string
  crossChainFlow :: string
  socialSentiment :: real

record analyze_market =
  currentPrice :: real
  marketCap :: real
  volume24h :: real
  circulatingSupply :: real

record analyze_response =
  token :: string
  momentumScore :: real
  status :: string
  recommendation :: string
  timeframes :: "(string \<times> TimeframeData) list"
  technicals :: TechnicalData
  riskLevel :: string
  marketData :: analyze_market

definition tokenMapping :: "(string \<times> string) list" where
  "tokenMapping =
     [(''BTC'', ''bitcoin''), (''ETH'', ''ethereum''), (''SOL'', ''solana''),
      (''MATIC'', ''matic-network''), (''AVAX'', ''avalanche-2''), (''BNB'', ''binancecoin''),
      (''ADA'', ''cardano''), (''DOT'', ''polkadot''), (''LINK'', ''chainlink''),
      (''UNI'', ''uniswap'')]"

definition getTokenId :: "string \<Rightarrow> string option" where
  "getTokenId symbol = map_of tokenMapping symbol"

definition determineTrend :: "jsnum \<Rightarrow> string" where
  "determineTrend changePercent =
     (case changePercent of
        JNull \<Rightarrow> ''neutral''
      | JUndefined \<Rightarrow> ''neutral''
      | JNum c \<Rightarrow>
          if c > 15 then ''very_bullish''
          else if c > 8 then ''strong_bullish''
          else if c > 3 then ''bullish''
          else if c > -3 then ''neutral''
          else if c > -8 then ''bearish''
          else if c > -15 then ''strong_bearish''
          else ''very_bearish'')"

text \<open>The loop of \<^verbatim>\<open>calculateRSI\<close> pushes one gain and one loss per pair of neighbours.\<close>

fun deltas :: "real list \<Rightarrow> real list" where
  "deltas (p # q # ps) = (q - p) # deltas (q # ps)"
| "deltas ps = []"

definition gains :: "real list \<Rightarrow> real list" where
  "gains prices = map (\<lambda>c. if c > 0 then c else 0) (deltas prices)"

definition losses :: "real list \<Rightarrow> real list" where
  "losses prices = map (\<lambda>c. if c < 0 then \<bar>c\<bar> else 0) (deltas prices)"

text \<open>\<^verbatim>\<open>xs.slice(-14)\<close>: the last fourteen elements, or all of them when there are fewer.\<close>

definition slice_last14 :: "'a list \<Rightarrow> 'a list" where
  "slice_last14 xs = drop (length xs - 14) xs"

definition avgGain :: "real list \<Rightarrow> real" where
  "avgGain prices = sum_list (slice_last14 (gains prices)) / 14"

definition avgLoss :: "real list \<Rightarrow> real" where
  "avgLoss prices = sum_list (slice_last14 (losses prices)) / 14"

definition calculateRSI :: "real list \<Rightarrow> real" where
  "calculateRSI prices =
     (if length prices < 14 then 50
      else if avgLoss prices = 0 then 100
      else let rs = avgGain prices / avgLoss prices;
               rsi = 100 - 100 / (1 + rs)
           in math_round rsi)"

definition analyzeVolumeProfile :: "market_data \<Rightarrow> string" where
  "analyzeVolumeProfile md =
     (let currentVolume = or0 (opt_usd (total_volume md));
          mcap = or0 (opt_usd (market_cap md))
      in if mcap = 0 then ''unknown''
         else let volumeToMcapRatio = currentVolume / mcap
              in if volumeToMcapRatio > 1 / 2 then ''exploding''
                 else if volumeToMcapRatio > 2 / 10 then ''increasing''
                 else if volumeToMcapRatio > 5 / 100 then ''normal''
                 else ''decreasing'')"

definition analyzeCrossChainFlow :: "market_data \<Rightarrow> string" where
  "analyzeCrossChainFlow md =
     (let change24h = or0 (opt_usd (price_change_percentage_24h_in_currency md));
          vol = or0 (opt_usd (total_volume md))
      in if change24h > 5 \<and> vol > 1000000000 then ''very_positive''
         else if change24h > 2 \<and> vol > 500000000 then ''positive''
         else if change24h > -2 \<and> vol > 100000000 then ''neutral''
         else if change24h < -5 then ''negative''
         else ''neutral'')"

definition calculateSocialSentiment :: "market_data \<Rightarrow> real" where
  "calculateSocialSentiment md =
     (let change24h = or0 (opt_usd (price_change_percentage_24h_in_currency md));
          vol = or0 (opt_usd (total_volume md));
          mcap = or0 (opt_usd (market_cap md));
          sentiment = 1 / 2 + (change24h / 100) * (3 / 10);
          sentiment' = (if mcap > 0 then sentiment + min ((vol / mcap) * (2 / 10)) (2 / 10)
                        else sentiment)
      in max 0 (min 1 sentiment'))"

text \<open>One of the three guarded assignments to \<^verbatim>\<open>timeframeAnalysis\<close>: the guard is
  \<^verbatim>\<open>timeframes.includes(key) && field?.usd !== null\<close>, and only \<^verbatim>\<open>null\<close> fails its second
  half.\<close>

definition timeframe_entry ::
  "string list \<Rightarrow> market_data \<Rightarrow> string \<Rightarrow> usd_obj option \<Rightarrow> (string \<times> TimeframeData) list" where
  "timeframe_entry tfs md key field =
     (if key \<in> set tfs \<and> opt_usd field \<noteq> JNull
      then [(key, \<lparr>change = or0 (opt_usd field),
                   volume = or0 (opt_usd (total_volume md)),
                   trend = determineTrend (JNum (or0 (opt_usd field)))\<rparr>)]
      else [])"

text \<open>The keys are distinct and inserted in this order, so the object is the
  concatenation of the entries.\<close>

definition timeframeAnalysis :: "string list \<Rightarrow> market_data \<Rightarrow> (string \<times> TimeframeData) list" where
  "timeframeAnalysis tfs md =
     timeframe_entry tfs md ''1h'' (price_change_percentage_1h_in_currency md)
     @ timeframe_entry tfs md ''24h'' (price_change_percentage_24h_in_currency md)
     @ timeframe_entry tfs md ''7d'' (price_change_percentage_7d_in_currency md)"

definition timeframe_score :: "TimeframeData \<Rightarrow> real" where
  "timeframe_score d = min (\<bar>change d\<bar> * 10) 50 + min ((volume d / 1000000000) * 5) 25"

definition avgScore :: "(string \<times> TimeframeData) list \<Rightarrow> real" where
  "avgScore tfa =
     (let scores = map (timeframe_score \<circ> snd) tfa
      in if length scores > 0 then sum_list scores / real (length scores) else 0)"

text \<open>The ladder that sets \<^verbatim>\<open>momentumStatus\<close> and \<^verbatim>\<open>recommendation\<close> together.\<close>

definition momentum_ladder :: "real \<Rightarrow> string \<times> string" where
  "momentum_ladder avg =
     (if avg > 60 then (''very_strong'', ''aggressive_buy'')
      else if avg > 40 then (''strong'', ''buy'')
      else if avg > 20 then (''building'', ''cautious_buy'')
      else if avg < -20 then (''fading'', ''sell'')
      else (''neutral'', ''hold''))"

definition defaultTimeframes :: "string list" where
  "defaultTimeframes = [''1h'', ''4h'', ''24h'']"

definition analyze :: "string option \<Rightarrow> string option \<Rightarrow> coin_data upstream \<Rightarrow> error + analyze_response" where
  "analyze tokenParam timeframesParam fetched =
     (let tok = param_or tokenParam ''BTC'';
          tfs = list_param_or timeframesParam defaultTimeframes
      in case getTokenId (toUpperCase tok) of
           None \<Rightarrow> Inl (Err 400 (''Token '' @ tok @ '' not supported''))
         | Some tokenId \<Rightarrow>
             (case fetched of
                Unavailable \<Rightarrow> Inl (Err 503 ''Failed to fetch live market data. Please try again later.'')
              | Malformed \<Rightarrow> Inl (Err 503 ''Failed to fetch live market data. Please try again later.'')
              | Body coinData \<Rightarrow>
                  (case market_data_of coinData of
                     None \<Rightarrow> Inl (Err 400 (''Market data for '' @ tok @ '' not available''))
                   | Some md \<Rightarrow>
                       (let tfa = timeframeAnalysis tfs md;
                            avg = avgScore tfa
                        in Inr \<lparr>token = toUpperCase tok,
                                momentumScore = math_round (avg * 10) / 10,
                                status = fst (momentum_ladder avg),
                                recommendation = snd (momentum_ladder avg),
                                timeframes = tfa,
                                technicals =
                                  \<lparr>rsi = calculateRSI (case sparkline_7d_price md of None \<Rightarrow> [] | Some ps \<Rightarrow> ps),
                                   volumeProfile = analyzeVolumeProfile md,
                                   crossChainFlow = analyzeCrossChainFlow md,
                                   socialSentiment = calculateSocialSentiment md\<rparr>,
                                riskLevel = (if avg > 50 then ''high'' else if avg > 30 then ''medium'' else ''low''),
                                marketData =
                                  \<lparr>currentPrice = or0 (opt_usd (current_price md)),
                                   marketCap = or0 (opt_usd (market_cap md)),
                                   volume24h = or0 (opt_usd (total_volume md)),
                                   circulatingSupply = or0 (circulating_supply md)\<rparr>\<rparr>))))"

section \<open>\<^verbatim>\<open>detect-momentum/route.ts\<close>\<close>

text \<open>\<^verbatim>\<open>Array.prototype.sort\<close> with a comparator is a stable sort: an element goes before
  another when the comparator is negative, and the input order stays where it is zero.\<close>

fun insert_by :: "('a \<Rightarrow> 'a \<Rightarrow> real) \<Rightarrow> 'a \<Rightarrow> 'a list \<Rightarrow> 'a list" where
  "insert_by cmp x [] = [x]"
| "insert_by cmp x (y # ys) = (if cmp x y \<le> 0 then x # y # ys else y # insert_by cmp x ys)"

definition array_sort :: "('a \<Rightarrow> 'a \<Rightarrow> real) \<Rightarrow> 'a list \<Rightarrow> 'a list" where
  "array_sort cmp xs = foldr (insert_by cmp) xs []"

text \<open>One element of the array that \<^verbatim>\<open>/coins/markets\<close> returns. The fields carry the
  prefix \<open>coin_\<close> to keep them apart from those of \<^typ>\<open>market_data\<close>.\<close>

record market_coin =
  coin_symbol :: string
  coin_name :: string
  coin_current_price :: jsnum
  coin_total_volume :: jsnum
  coin_market_cap :: jsnum
  coin_price_change_percentage_24h :: jsnum
  coin_price_change_percentage_1h_in_currency :: jsnum
  coin_price_change_percentage_24h_in_currency :: jsnum
  coin_price_change_percentage_7d_in_currency :: jsnum

text \<open>\<^verbatim>\<open>coin[changeField]\<close>: reading a field by its name.\<close>

definition coin_field :: "market_coin \<Rightarrow> string \<Rightarrow> jsnum" where
  "coin_field coin f =
     (if f = ''price_change_percentage_1h_in_currency'' then coin_price_change_percentage_1h_in_currency coin
      else if f = ''price_change_percentage_24h_in_currency'' then coin_price_change_percentage_24h_in_currency coin
      else if f = ''price_change_percentage_7d_in_currency'' then coin_price_change_percentage_7d_in_currency coin
      else if f = ''price_change_percentage_24h'' then coin_price_change_percentage_24h coin
      else if f = ''total_volume'' then coin_total_volume coin
      else if f = ''market_cap'' then coin_market_cap coin
      else if f = ''current_price'' then coin_current_price coin
      else JUndefined)"

record momentum_token =
  mt_token :: string
  mt_name :: string
  mt_change24h :: real
  mt_change1h :: real
  mt_change7d :: real
  mt_price :: jsnum
  mt_volume24h :: jsnum
  mt_marketCap :: jsnum
  mt_chains :: "string list"
  mt_momentumScore :: real
  mt_trend :: string

text \<open>The \<^verbatim>\<open>summary\<close> string is a template; the field \<open>scan_summary\<close> holds the three
  values it interpolates: the number of tokens found, the threshold and the timeframe.\<close>

record scan_response =
  scan_threshold :: jsfloat
  scan_timeframe :: string
  momentumDetected :: bool
  tokens :: "momentum_token list"
  scan_summary :: "nat \<times> jsfloat \<times> string"

definition timeframeMappings :: "(string \<times> string) list" where
  "timeframeMappings =
     [(''1h'', ''price_change_percentage_1h_in_currency''),
      (''24h'', ''price_change_percentage_24h_in_currency''),
      (''7d'', ''price_change_percentage_7d_in_currency'')]"

text \<open>\<^verbatim>\<open>timeframeMappings[timeframe] || "price_change_percentage_24h_in_currency"\<close>: the name
  of a field, or an inherited member when the timeframe names one.\<close>

definition changeField :: "string \<Rightarrow> string lookup" where
  "changeField timeframe =
     (case obj_get timeframeMappings timeframe of
        Own f \<Rightarrow> Own f
      | Inherited \<Rightarrow> Inherited
      | Absent \<Rightarrow> Own ''price_change_percentage_24h_in_currency'')"

text \<open>\<^verbatim>\<open>coin[changeField]\<close>. An inherited member used as a property key is converted to a
  string such as \<^verbatim>\<open>"function toString() { [native code] }"\<close>, which names no field of a
  coin.\<close>

definition coin_change :: "market_coin \<Rightarrow> string lookup \<Rightarrow> jsnum" where
  "coin_change coin key =
     (case key of Own f \<Rightarrow> coin_field coin f | Inherited \<Rightarrow> JUndefined | Absent \<Rightarrow> JUndefined)"

definition chainMappings :: "(string \<times> string list) list" where
  "chainMappings =
     [(''BTC'', [''Bitcoin'', ''Ethereum (wBTC)'', ''BSC (BTCB)'', ''Solana (Portal BTC)'']),
      (''ETH'', [''Ethereum'', ''BSC (ETH)'', ''Polygon (ETH)'', ''Arbitrum (ETH)'', ''Optimism (ETH)'']),
      (''SOL'', [''Solana'', ''Ethereum (Wrapped SOL)'', ''BSC (SOL)'']),
      (''MATIC'', [''Polygon'', ''Ethereum (MATIC)'', ''BSC (MATIC)'']),
      (''AVAX'', [''Avalanche'', ''Ethereum (AVAX)'', ''BSC (AVAX)'']),
      (''BNB'', [''BSC'', ''Ethereum (BNB)'']),
      (''ADA'', [''Cardano'', ''Ethereum (ADA)'', ''BSC (ADA)'']),
      (''DOT'', [''Polkadot'', ''Ethereum (DOT)'', ''BSC (DOT)''])]"

definition getAvailableChains :: "string \<Rightarrow> string list" where
  "getAvailableChains symbol =
     (case map_of chainMappings symbol of Some cs \<Rightarrow> cs | None \<Rightarrow> [''Ethereum'', ''BSC''])"

definition calculateMomentumScore :: "market_coin \<Rightarrow> real" where
  "calculateMomentumScore coin =
     (let change24h = or0 (coin_price_change_percentage_24h coin);
          change1h = or0 (coin_price_change_percentage_1h_in_currency coin);
          vol = or0 (coin_total_volume coin);
          mcap = or0 (coin_market_cap coin);
          score = \<bar>change24h\<bar> * 2 + \<bar>change1h\<bar> * 3
                  + min ((vol / 1000000000) * 10) 20
                  + min ((mcap / 1000000000) * 2) 10
      in math_round (score * 10) / 10)"

text \<open>The filter callback: \<^verbatim>\<open>change !== null && Math.abs(change) >= threshold\<close>. The
  threshold is what \<^verbatim>\<open>parseFloat\<close> returned: a number, an infinity or NaN. An absent
  field has the absolute value NaN, and a comparison with NaN is false.\<close>

definition has_momentum :: "jsfloat \<Rightarrow> string \<Rightarrow> market_coin \<Rightarrow> bool" where
  "has_momentum threshold timeframe coin =
     (case coin_change coin (changeField timeframe) of
        JNull \<Rightarrow> False
      | JUndefined \<Rightarrow> False
      | JNum c \<Rightarrow> js_ge (Fin \<bar>c\<bar>) threshold)"

definition to_momentum_token :: "string \<Rightarrow> market_coin \<Rightarrow> momentum_token" where
  "to_momentum_token timeframe coin =
     \<lparr>mt_token = toUpperCase (coin_symbol coin),
      mt_name = coin_name coin,
      mt_change24h = or0 (coin_price_change_percentage_24h coin),
      mt_change1h = or0 (coin_price_change_percentage_1h_in_currency coin),
      mt_change7d = or0 (coin_price_change_percentage_7d_in_currency coin),
      mt_price = coin_current_price coin,
      mt_volume24h = coin_total_volume coin,
      mt_marketCap = coin_market_cap coin,
      mt_chains = getAvailableChains (toUpperCase (coin_symbol coin)),
      mt_momentumScore = calculateMomentumScore coin,
      mt_trend = determineTrend (coin_change coin (changeField timeframe))\<rparr>"

definition tokensWithMomentum :: "jsfloat \<Rightarrow> string \<Rightarrow> market_coin list \<Rightarrow> momentum_token list" where
  "tokensWithMomentum threshold timeframe coins =
     array_sort (\<lambda>a b. mt_momentumScore b - mt_momentumScore a)
       (map (to_momentum_token timeframe) (filter (has_momentum threshold timeframe) coins))"

text \<open>The handler. Here \<^verbatim>\<open>response.json()\<close> is called outside the inner \<^verbatim>\<open>try\<close>, so a
  body that does not parse ends in the outer handler.\<close>

definition scan :: "jsfloat \<Rightarrow> string option \<Rightarrow> market_coin list upstream \<Rightarrow> error + scan_response" where
  "scan threshold timeframeParam fetched =
     (let timeframe = param_or timeframeParam ''24h''
      in case fetched of
           Unavailable \<Rightarrow> Inl (Err 503 ''Failed to fetch live market data. Please try again later.'')
         | Malformed \<Rightarrow> Inl (Err 500 ''Failed to detect momentum with live data'')
         | Body coins \<Rightarrow>
             (let found = tokensWithMomentum threshold timeframe coins
              in Inr \<lparr>scan_threshold = threshold,
                      scan_timeframe = timeframe,
                      momentumDetected = (length found > 0),
                      tokens = take 10 found,
                      scan_summary = (length found, threshold, timeframe)\<rparr>))"

section \<open>\<^verbatim>\<open>get-cross-chain-prices/route.ts\<close>\<close>

text \<open>An object built by assignments \<^verbatim>\<open>obj[key] = value\<close>, as the list of its entries
  in the order of \<^verbatim>\<open>Object.keys\<close>: a new key goes to the end, an old key keeps its place.\<close>

fun obj_set :: "string \<Rightarrow> 'v \<Rightarrow> (string \<times> 'v) list \<Rightarrow> (string \<times> 'v) list" where
  "obj_set k v [] = [(k, v)]"
| "obj_set k v ((k', v') # kvs) = (if k' = k then (k, v) # kvs else (k', v') # obj_set k v kvs)"

text \<open>A quote. For a chain that names an inherited member the symbol is that member, the
  price is NaN, and \<^verbatim>\<open>slippage\<close> and \<^verbatim>\<open>dex\<close> are \<^verbatim>\<open>undefined\<close>.\<close>

record ChainData =
  cd_symbol :: "string lookup"
  cd_price :: jsfloat
  cd_slippage :: jsnum
  cd_dex :: "string option"

text \<open>The entry of the upstream answer for the token: \<^verbatim>\<open>usd\<close> is the base price, a
  number (a base price of zero is the zero with a positive sign).\<close>

record token_data =
  td_usd :: real
  td_usd_24h_vol :: jsnum
  td_usd_24h_change :: jsnum

record arbitrage =
  opportunity :: jsfloat
  buyChain :: "string option"
  sellChain :: "string option"
  profitable :: bool
  minSpread :: string

record price_market =
  pm_basePrice :: real
  pm_volume24h :: real
  pm_change24h :: real
  pm_binanceData :: "(real \<times> real) option"

record price_response =
  pr_token :: string
  pr_chains :: "(string \<times> ChainData) list"
  pr_arbitrage :: arbitrage
  pr_marketData :: price_market

text \<open>Rows of \<^verbatim>\<open>chainVariations\<close>: price factor, slippage, venue.\<close>

definition chainVariations :: "(string \<times> real \<times> real \<times> string) list" where
  "chainVariations =
     [(''ethereum'', 1, 1 / 10, ''Uniswap V3''),
      (''bsc'', 998 / 1000, 3 / 10, ''PancakeSwap''),
      (''polygon'', 1001 / 1000, 4 / 10, ''QuickSwap''),
      (''solana'', 999 / 1000, 2 / 10, ''Jupiter''),
      (''arbitrum'', 10005 / 10000, 15 / 100, ''Uniswap V3''),
      (''optimism'', 10002 / 10000, 18 / 100, ''Uniswap V3''),
      (''avalanche'', 997 / 1000, 25 / 100, ''Trader Joe'')]"

definition tokenSymbols :: "(string \<times> (string \<times> string) list) list" where
  "tokenSymbols =
     [(''BTC'', [(''ethereum'', ''wBTC''), (''bsc'', ''BTCB''), (''polygon'', ''wBTC''),
                 (''solana'', ''Portal BTC''), (''arbitrum'', ''wBTC''), (''optimism'', ''wBTC''),
                 (''avalanche'', ''BTC.b'')]),
      (''ETH'', [(''ethereum'', ''ETH''), (''bsc'', ''ETH''), (''polygon'', ''ETH''),
                 (''solana'', ''Wrapped ETH''), (''arbitrum'', ''ETH''), (''optimism'', ''ETH''),
                 (''avalanche'', ''WETH.e'')]),
      (''SOL'', [(''solana'', ''SOL''), (''ethereum'', ''SOL''), (''bsc'', ''SOL'')])]"

text \<open>\<^verbatim>\<open>tokenSymbols[token]?.[chain]\<close>. The token has been upper-cased and so names no
  inherited member; the chain may name one.\<close>

definition wrapped_symbol :: "string \<Rightarrow> string \<Rightarrow> string lookup" where
  "wrapped_symbol tok chain =
     (case map_of tokenSymbols tok of None \<Rightarrow> Absent | Some per_chain \<Rightarrow> obj_get per_chain chain)"

text \<open>\<^verbatim>\<open>chainData.priceFactor\<close>, \<^verbatim>\<open>chainData.slippage\<close> and \<^verbatim>\<open>chainData.dex\<close>: an inherited
  member has none of the three, and \<^verbatim>\<open>undefined\<close> in a sum is NaN.\<close>

fun priceFactor_of :: "(real \<times> real \<times> string) lookup \<Rightarrow> jsfloat" where
  "priceFactor_of (Own (priceFactor, slip, venue)) = Fin priceFactor"
| "priceFactor_of other = NaN"

fun slippage_of :: "(real \<times> real \<times> string) lookup \<Rightarrow> jsnum" where
  "slippage_of (Own (priceFactor, slip, venue)) = JNum slip"
| "slippage_of other = JUndefined"

fun dex_of :: "(real \<times> real \<times> string) lookup \<Rightarrow> string option" where
  "dex_of (Own (priceFactor, slip, venue)) = Some venue"
| "dex_of other = None"

text \<open>The guard \<^verbatim>\<open>!chainData || !symbol\<close> fails only for \<^verbatim>\<open>undefined\<close>: an own entry and an
  inherited member are both truthy. The last argument is the value that
  \<^verbatim>\<open>Math.random()\<close> returns in this call.\<close>

definition getChainInfo :: "string \<Rightarrow> string \<Rightarrow> real \<Rightarrow> real \<Rightarrow> real \<Rightarrow> ChainData option" where
  "getChainInfo chain tok basePrice vol random =
     (let chainData = obj_get chainVariations chain;
          wrapped = wrapped_symbol tok chain
      in if chainData = Absent \<or> wrapped = Absent then None
         else let volumeImpact = min (vol / 10000000000) (2 / 1000);
                  randomVariation = (random - 1 / 2) * (4 / 1000);
                  finalPriceFactor =
                    js_add (js_add (priceFactor_of chainData) (Fin volumeImpact)) (Fin randomVariation)
              in Some \<lparr>cd_symbol = wrapped,
                       cd_price = js_mul (Fin basePrice) finalPriceFactor,
                       cd_slippage = slippage_of chainData,
                       cd_dex = dex_of chainData\<rparr>)"

text \<open>\<^verbatim>\<open>crossChainPrices[chain] = chainInfo\<close>: an assignment to \<^verbatim>\<open>__proto__\<close> replaces the
  prototype of the object and adds no key.\<close>

definition store_quote :: "string \<Rightarrow> ChainData \<Rightarrow> (string \<times> ChainData) list \<Rightarrow> (string \<times> ChainData) list" where
  "store_quote chain chainInfo acc = (if chain = ''__proto__'' then acc else obj_set chain chainInfo acc)"

text \<open>The loop over the requested chains. \<open>rnd i\<close> is the \<open>i\<close>-th value drawn from
  \<^verbatim>\<open>Math.random\<close> in this request; a draw happens only for a chain that passes the guard.\<close>

fun crossChainPrices ::
  "(nat \<Rightarrow> real) \<Rightarrow> nat \<Rightarrow> string \<Rightarrow> real \<Rightarrow> real \<Rightarrow> string list \<Rightarrow>
   (string \<times> ChainData) list \<Rightarrow> (string \<times> ChainData) list" where
  "crossChainPrices rnd i tok basePrice vol [] acc = acc"
| "crossChainPrices rnd i tok basePrice vol (chain # rest) acc =
     (case getChainInfo chain tok basePrice vol (rnd i) of
        None \<Rightarrow> crossChainPrices rnd i tok basePrice vol rest acc
      | Some chainInfo \<Rightarrow>
          crossChainPrices rnd (Suc i) tok basePrice vol rest (store_quote chain chainInfo acc))"

text \<open>\<^verbatim>\<open>Math.min(...prices)\<close> and \<^verbatim>\<open>Math.max(...prices)\<close> of a list given as its first
  element and the rest.\<close>

definition math_min :: "jsfloat \<Rightarrow> jsfloat list \<Rightarrow> jsfloat" where
  "math_min p ps = fold (\<lambda>q m. js_min2 m q) ps p"

definition math_max :: "jsfloat \<Rightarrow> jsfloat list \<Rightarrow> jsfloat" where
  "math_max p ps = fold (\<lambda>q m. js_max2 m q) ps p"

text \<open>\<^verbatim>\<open>Object.keys(obj).find(chain => obj[chain].price === target)\<close>.\<close>

definition find_chain :: "(string \<times> ChainData) list \<Rightarrow> jsfloat \<Rightarrow> string option" where
  "find_chain quotes target = map_option fst (find (\<lambda>kv. js_eq (cd_price (snd kv)) target) quotes)"

definition arbitrage_of :: "(string \<times> ChainData) list \<Rightarrow> jsfloat \<Rightarrow> jsfloat list \<Rightarrow> arbitrage" where
  "arbitrage_of quotes p ps =
     (let minPrice = math_min p ps;
          maxPrice = math_max p ps;
          arbitrageOpportunity = js_mul (js_div (js_sub maxPrice minPrice) minPrice) (Fin 100)
      in \<lparr>opportunity = arbitrageOpportunity,
          buyChain = find_chain quotes minPrice,
          sellChain = find_chain quotes maxPrice,
          profitable = js_gt arbitrageOpportunity (Fin 1),
          minSpread = ''0.5%''\<rparr>)"

definition price_default_chains :: "string list" where
  "price_default_chains = [''ethereum'', ''bsc'', ''polygon'', ''solana'']"

text \<open>The handler. \<open>fetched\<close> is the upstream answer reduced to the entry of the token
  (\<open>None\<close> when the body has none); \<open>binance\<close> is the parsed secondary feed, if it came.\<close>

definition price ::
  "string option \<Rightarrow> string option \<Rightarrow> token_data option upstream \<Rightarrow> (real \<times> real) option \<Rightarrow>
   (nat \<Rightarrow> real) \<Rightarrow> error + price_response" where
  "price tokenParam chainsParam fetched binance rnd =
     (let tok = param_or tokenParam ''BTC'';
          chain_list = list_param_or chainsParam price_default_chains
      in case map_of tokenMapping (toUpperCase tok) of
           None \<Rightarrow> Inl (Err 400 (''Token '' @ tok @ '' not supported''))
         | Some tokenId \<Rightarrow>
             (case fetched of
                Unavailable \<Rightarrow> Inl (Err 503 ''Failed to fetch live price data. Please try again later.'')
              | Malformed \<Rightarrow> Inl (Err 503 ''Failed to fetch live price data. Please try again later.'')
              | Body None \<Rightarrow> Inl (Err 400 (''Price data for '' @ tok @ '' not available''))
              | Body (Some tokenData) \<Rightarrow>
                  (let basePrice = td_usd tokenData;
                       vol = or0 (td_usd_24h_vol tokenData);
                       quotes = crossChainPrices rnd 0 (toUpperCase tok) basePrice vol chain_list []
                   in case map (cd_price \<circ> snd) quotes of
                        [] \<Rightarrow> Inl (Err 400 ''No supported chains found for this token'')
                      | p # ps \<Rightarrow>
                          Inr \<lparr>pr_token = toUpperCase tok,
                               pr_chains = quotes,
                               pr_arbitrage = arbitrage_of quotes p ps,
                               pr_marketData =
                                 \<lparr>pm_basePrice = basePrice,
                                  pm_volume24h = vol,
                                  pm_change24h = or0 (td_usd_24h_change tokenData),
                                  pm_binanceData = binance\<rparr>\<rparr>)))"

section \<open>\<^verbatim>\<open>create-momentum-strategy/route.ts\<close>\<close>

record AllocationData =
  percentage :: real
  amount :: real
  ad_symbol :: string
  reasoning :: string

record ExitStrategy =
  profitTarget :: real
  stopLoss :: real
  timeLimit :: string
  partialExit :: "(string \<times> string) list"

record Strategy =
  primary :: string
  allocation :: "(string \<times> AllocationData) list"
  exitStrategy :: ExitStrategy

record strategy_body =
  sb_primary :: string
  sb_allocation :: "(string \<times> AllocationData) list"
  sb_executionOrder :: "string list"
  sb_exitStrategy :: ExitStrategy

record strategy_response =
  sr_token :: string
  sr_budget :: real
  sr_riskLevel :: string
  maxPosition :: real
  sr_strategy :: strategy_body

definition riskMultipliers :: "(string \<times> real) list" where
  "riskMultipliers = [(''low'', 3 / 10), (''medium'', 6 / 10), (''high'', 9 / 10)]"

definition riskMultiplier :: "string \<Rightarrow> real" where
  "riskMultiplier level = (case map_of riskMultipliers level of Some m \<Rightarrow> m | None \<Rightarrow> 6 / 10)"

definition alloc :: "real \<Rightarrow> real \<Rightarrow> real \<Rightarrow> string \<Rightarrow> string \<Rightarrow> AllocationData" where
  "alloc pct amt_factor maxPos wrapped why =
     \<lparr>percentage = pct, amount = maxPos * amt_factor, ad_symbol = wrapped, reasoning = why\<rparr>"

definition strategies :: "real \<Rightarrow> (string \<times> Strategy) list" where
  "strategies maxPos =
     [(''BTC'',
       \<lparr>primary = ''ethereum'',
        allocation =
          [(''ethereum'', alloc 40 (4 / 10) maxPos ''wBTC'' ''Highest liquidity, lowest slippage''),
           (''bsc'', alloc 25 (25 / 100) maxPos ''BTCB'' ''Good liquidity, lower fees''),
           (''polygon'', alloc 20 (2 / 10) maxPos ''wBTC'' ''Low fees, decent liquidity''),
           (''solana'', alloc 15 (15 / 100) maxPos ''Portal BTC'' ''Fast execution, growing ecosystem'')],
        exitStrategy =
          \<lparr>profitTarget = 15, stopLoss = 8, timeLimit = ''24h'',
           partialExit = [(''fifty_percent'', ''at 8% profit''), (''thirty_percent'', ''at 12% profit''),
                          (''twenty_percent'', ''let it ride to target'')]\<rparr>\<rparr>),
      (''ETH'',
       \<lparr>primary = ''ethereum'',
        allocation =
          [(''ethereum'', alloc 50 (5 / 10) maxPos ''ETH'' ''Native chain, maximum liquidity''),
           (''arbitrum'', alloc 25 (25 / 100) maxPos ''ETH'' ''L2 efficiency, high liquidity''),
           (''bsc'', alloc 15 (15 / 100) maxPos ''ETH'' ''Cross-chain exposure''),
           (''polygon'', alloc 10 (1 / 10) maxPos ''ETH'' ''Low fee option'')],
        exitStrategy =
          \<lparr>profitTarget = 12, stopLoss = 6, timeLimit = ''18h'',
           partialExit = [(''forty_percent_a'', ''at 6% profit''), (''forty_percent_b'', ''at 10% profit''),
                          (''twenty_percent'', ''hold to target'')]\<rparr>\<rparr>),
      (''SOL'',
       \<lparr>primary = ''solana'',
        allocation =
          [(''solana'', alloc 60 (6 / 10) maxPos ''SOL'' ''Native chain, best price discovery''),
           (''ethereum'', alloc 25 (25 / 100) maxPos ''SOL'' ''Cross-chain arbitrage potential''),
           (''bsc'', alloc 15 (15 / 100) maxPos ''SOL'' ''Additional exposure, lower fees'')],
        exitStrategy =
          \<lparr>profitTarget = 20, stopLoss = 10, timeLimit = ''12h'',
           partialExit = [(''thirty_percent'', ''at 10% profit''), (''forty_percent'', ''at 15% profit''),
                          (''thirty_percent_hold'', ''hold to target'')]\<rparr>\<rparr>)]"

text \<open>The \<^verbatim>\<open>forEach\<close> over the template's entries: an entry is copied when its chain is
  among the requested ones. The template's keys are distinct, so each copy is a new key.\<close>

definition filteredAllocation :: "string list \<Rightarrow> (string \<times> AllocationData) list \<Rightarrow> (string \<times> AllocationData) list" where
  "filteredAllocation requested template = filter (\<lambda>(chain, d). chain \<in> set requested) template"

text \<open>The keys sorted by the comparator \<^verbatim>\<open>bData.percentage - aData.percentage\<close>; each key
  is carried with its entry instead of being looked up again.\<close>

definition executionOrder :: "(string \<times> AllocationData) list \<Rightarrow> string list" where
  "executionOrder filtered =
     map fst (array_sort (\<lambda>a b. percentage (snd b) - percentage (snd a)) filtered)"

definition strategy_default_chains :: "string list" where
  "strategy_default_chains = [''ethereum'', ''bsc'', ''polygon'', ''solana'']"

text \<open>The handler. \<open>budget\<close> is what \<^verbatim>\<open>parseFloat\<close> made of the parameter (or of the
  default \<^verbatim>\<open>"2000"\<close>), taken as a number. The fields \<^verbatim>\<open>estimatedReturns\<close>, \<^verbatim>\<open>timeline\<close>
  and \<^verbatim>\<open>risks\<close> are the same in every answer and are left out.\<close>

definition buildStrategy ::
  "string option \<Rightarrow> real \<Rightarrow> string option \<Rightarrow> string option \<Rightarrow> error + strategy_response" where
  "buildStrategy tokenParam budget riskParam chainsParam =
     (let tok = param_or tokenParam ''BTC'';
          risk = param_or riskParam ''medium'';
          chain_list = list_param_or chainsParam strategy_default_chains;
          maxPos = budget * riskMultiplier risk
      in case map_of (strategies maxPos) (toUpperCase tok) of
           None \<Rightarrow> Inl (Err 400 (''Strategy for '' @ tok @ '' not available''))
         | Some strategy \<Rightarrow>
             (let filtered = filteredAllocation chain_list (allocation strategy)
              in Inr \<lparr>sr_token = toUpperCase tok,
                      sr_budget = budget,
                      sr_riskLevel = risk,
                      maxPosition = maxPos,
                      sr_strategy =
                        \<lparr>sb_primary = primary strategy,
                         sb_allocation = filtered,
                         sb_executionOrder = executionOrder filtered,
                         sb_exitStrategy = exitStrategy strategy\<rparr>\<rparr>))"

section \<open>\<^verbatim>\<open>execute-momentum-trade/route.ts\<close>\<close>

text \<open>\<^verbatim>\<open>String.prototype.toLowerCase\<close> on ASCII text.\<close>

definition lower_char :: "char \<Rightarrow> char" where
  "lower_char c =
     (case map_of (zip ''ABCDEFGHIJKLMNOPQRSTUVWXYZ'' ''abcdefghijklmnopqrstuvwxyz'') c of
        Some l \<Rightarrow> l
      | None \<Rightarrow> c)"

definition toLowerCase :: "string \<Rightarrow> string" where
  "toLowerCase s = map lower_char s"

record trade =
  tr_chain :: string
  tr_action :: string
  tr_amount :: string
  tr_symbol :: string
  tr_estimatedGas :: string
  tr_expectedSlippage :: string
  tr_dex :: string
  tr_priority :: nat

record executionPlan =
  ep_token :: string
  ep_status :: string
  trades :: "trade list"

text \<open>A transaction payload stub: the NEAR function call carries the receiver, the
  method, the output token, the amount (as \<^verbatim>\<open>amount_in\<close> and as \<^verbatim>\<open>deposit\<close>) and the gas;
  the EVM call carries \<^verbatim>\<open>to\<close>, \<^verbatim>\<open>value\<close>, \<^verbatim>\<open>data\<close> and \<^verbatim>\<open>chainId\<close>.\<close>

datatype payload =
  NearTransaction string string string string string
| EvmTransaction string string string nat

record plan_response =
  plan_of :: executionPlan
  transactionPayloads :: "(string \<times> payload) list"

definition plan_symbols :: "(string \<times> (string \<times> string) list) list" where
  "plan_symbols =
     [(''BTC'', [(''ethereum'', ''wBTC''), (''bsc'', ''BTCB''), (''solana'', ''Portal BTC''),
                 (''polygon'', ''wBTC''), (''near'', ''nBTC'')]),
      (''ETH'', [(''ethereum'', ''ETH''), (''bsc'', ''ETH''), (''solana'', ''Wrapped ETH''),
                 (''polygon'', ''ETH''), (''arbitrum'', ''ETH''), (''near'', ''nETH'')]),
      (''SOL'', [(''solana'', ''SOL''), (''ethereum'', ''SOL''), (''bsc'', ''SOL''),
                 (''near'', ''nSOL'')])]"

text \<open>\<^verbatim>\<open>symbols[token.toUpperCase()]?.[chain] || token\<close>.\<close>

definition getTokenSymbol :: "string \<Rightarrow> string \<Rightarrow> string" where
  "getTokenSymbol tok chain =
     (case map_of plan_symbols (toUpperCase tok) of
        None \<Rightarrow> tok
      | Some per_chain \<Rightarrow> (case map_of per_chain chain of None \<Rightarrow> tok | Some s \<Rightarrow> s))"

definition getEstimatedGas :: "string \<Rightarrow> string" where
  "getEstimatedGas chain =
     (case map_of [(''ethereum'', ''0.015 ETH''), (''bsc'', ''0.003 BNB''), (''polygon'', ''0.01 MATIC''),
                   (''arbitrum'', ''0.005 ETH''), (''solana'', ''0.001 SOL''), (''near'', ''0.01 NEAR'')] chain of
        Some g \<Rightarrow> g
      | None \<Rightarrow> ''0.01 ETH'')"

definition getExpectedSlippage :: "string \<Rightarrow> string" where
  "getExpectedSlippage chain =
     (case map_of [(''ethereum'', ''0.1%''), (''bsc'', ''0.3%''), (''polygon'', ''0.4%''),
                   (''arbitrum'', ''0.2%''), (''solana'', ''0.2%''), (''near'', ''0.5%'')] chain of
        Some g \<Rightarrow> g
      | None \<Rightarrow> ''0.5%'')"

definition getBestDex :: "string \<Rightarrow> string" where
  "getBestDex chain =
     (case map_of [(''ethereum'', ''Uniswap V3''), (''bsc'', ''PancakeSwap''), (''polygon'', ''QuickSwap''),
                   (''arbitrum'', ''Uniswap V3''), (''solana'', ''Jupiter''), (''near'', ''Ref Finance'')] chain of
        Some g \<Rightarrow> g
      | None \<Rightarrow> ''Unknown DEX'')"

definition getDexAddress :: "string \<Rightarrow> string" where
  "getDexAddress chain =
     (case map_of [(''ethereum'', ''0xE592427A0AEce92De3Edee1F18E0157C05861564''),
                   (''bsc'', ''0x10ED43C718714eb63d5aA57B78B54704E256024E''),
                   (''polygon'', ''0xa5E0829CaCEd8fFDD4De3c43696c57F7D7A678ff''),
                   (''arbitrum'', ''0xE592427A0AEce92De3Edee1F18E0157C05861564'')] chain of
        Some a \<Rightarrow> a
      | None \<Rightarrow> ''0x0000000000000000000000000000000000000000'')"

definition getChainId :: "string \<Rightarrow> nat" where
  "getChainId chain =
     (case map_of [(''ethereum'', 1), (''bsc'', 56), (''polygon'', 137), (''arbitrum'', 42161)] chain of
        Some i \<Rightarrow> i
      | None \<Rightarrow> 1)"

definition generateSwapData :: "string \<Rightarrow> string \<Rightarrow> string" where
  "generateSwapData tok amt =
     ''0x414bf389000000000000000000000000'' @ toLowerCase tok
     @ ''0000000000000000000000000000000000000000000000000000000000000000000000000000000000000000''
     @ amt"

text \<open>\<^verbatim>\<open>amounts[index] || "1000"\<close>: a position beyond the end of the list reads
  \<^verbatim>\<open>undefined\<close>, and an empty string is falsy as well.\<close>

definition amount_at :: "string list \<Rightarrow> nat \<Rightarrow> string" where
  "amount_at amounts index =
     (if index < length amounts \<and> amounts ! index \<noteq> [] then amounts ! index else ''1000'')"

text \<open>The callback of \<^verbatim>\<open>chains.map((chain, index) => ...)\<close> that builds a trade.\<close>

definition make_trade :: "string \<Rightarrow> string list \<Rightarrow> string \<Rightarrow> nat \<Rightarrow> trade" where
  "make_trade tok amounts chain index =
     \<lparr>tr_chain = chain,
      tr_action = ''buy'',
      tr_amount = amount_at amounts index,
      tr_symbol = getTokenSymbol tok chain,
      tr_estimatedGas = getEstimatedGas chain,
      tr_expectedSlippage = getExpectedSlippage chain,
      tr_dex = getBestDex chain,
      tr_priority = index + 1\<rparr>"

text \<open>The callback that builds a payload stub.\<close>

definition make_payload :: "string \<Rightarrow> string list \<Rightarrow> string \<Rightarrow> nat \<Rightarrow> string \<times> payload" where
  "make_payload tok amounts chain index =
     (let amt = amount_at amounts index
      in if chain = ''near''
         then (chain, NearTransaction ''dex.near'' ''swap'' (getTokenSymbol tok chain) amt ''100000000000000'')
         else (chain, EvmTransaction (getDexAddress chain) amt (generateSwapData tok amt) (getChainId chain)))"

text \<open>\<^verbatim>\<open>xs.map((x, index) => f(x, index))\<close>.\<close>

definition map_index :: "('a \<Rightarrow> nat \<Rightarrow> 'b) \<Rightarrow> 'a list \<Rightarrow> 'b list" where
  "map_index f xs = map (\<lambda>(x, i). f x i) (zip xs [0..<length xs])"

definition plan_default_chains :: "string list" where
  "plan_default_chains = [''ethereum'', ''bsc'']"

definition plan_default_amounts :: "string list" where
  "plan_default_amounts = [''1000'', ''500'']"

text \<open>The lists that the handler reads from the query string.\<close>

definition plan_chains :: "string option \<Rightarrow> string list" where
  "plan_chains chainsParam = list_param_or chainsParam plan_default_chains"

definition plan_amounts :: "string option \<Rightarrow> string list" where
  "plan_amounts amountsParam = list_param_or amountsParam plan_default_amounts"

text \<open>The handler: \<^verbatim>\<open>!strategy\<close> holds for an absent and for an empty parameter. The
  static guidance of the response (timing, monitoring, instructions, warnings) is the
  same in every response and is left out.\<close>

definition plan ::
  "string option \<Rightarrow> string option \<Rightarrow> string option \<Rightarrow> string option \<Rightarrow> error + plan_response" where
  "plan strategyParam tokenParam chainsParam amountsParam =
     (let tok = param_or tokenParam ''BTC'';
          chain_list = plan_chains chainsParam;
          amounts = plan_amounts amountsParam
      in if strategyParam = None \<or> strategyParam = Some []
         then Inl (Err 400 ''Strategy parameter is required'')
         else Inr \<lparr>plan_of =
                      \<lparr>ep_token = toUpperCase tok,
                       ep_status = ''ready_for_execution'',
                       trades = map_index (make_trade tok amounts) chain_list\<rparr>,
                    transactionPayloads = map_index (make_payload tok amounts) chain_list\<rparr>)"

section \<open>Properties of the execution planner\<close>

lemma length_map_index: "length (map_index f xs) = length xs"
  by (simp add: map_index_def)

lemma nth_map_index: "i < length xs \<Longrightarrow> map_index f xs ! i = f (xs ! i) i"
  by (simp add: map_index_def)

lemma map_map_index: "map g (map_index f xs) = map_index (\<lambda>x i. g (f x i)) xs"
  by (simp add: map_index_def case_prod_unfold comp_def)

lemma map_index_fst: "map_index (\<lambda>x i. x) xs = xs"
  by (rule nth_equalityI) (simp_all add: length_map_index nth_map_index)

lemma map_index_snd: "map_index (\<lambda>x i. g i) xs = map g [0..<length xs]"
  by (rule nth_equalityI) (simp_all add: length_map_index nth_map_index)

text \<open>
  Claim C5. With a non-empty strategy reference the planner answers with an execution
  plan that has one trade per requested chain, in the order of the request, with the
  priorities 1, 2, ... up to the number of chains by position. The amount of a trade
  is the amount at the same position when there is a non-empty one, and the
  placeholder \<^verbatim>\<open>"1000"\<close> when the amount list is too short.
\<close>

theorem plan_trades:
  assumes "strategyParam = Some s" and "s \<noteq> []"
  shows "\<exists>r. plan strategyParam tokenParam chainsParam amountsParam = Inr r
           \<and> length (trades (plan_of r)) = length (plan_chains chainsParam)
           \<and> map tr_chain (trades (plan_of r)) = plan_chains chainsParam
           \<and> map tr_priority (trades (plan_of r)) = [1..<length (plan_chains chainsParam) + 1]
           \<and> (\<forall>i < length (plan_chains chainsParam).
                 tr_priority (trades (plan_of r) ! i) = i + 1
                 \<and> (i < length (plan_amounts amountsParam) \<and> plan_amounts amountsParam ! i \<noteq> []
                      \<longrightarrow> tr_amount (trades (plan_of r) ! i) = plan_amounts amountsParam ! i)
                 \<and> (length (plan_amounts amountsParam) \<le> i
                      \<longrightarrow> tr_amount (trades (plan_of r) ! i) = ''1000''))"
proof -
  let ?cs = "plan_chains chainsParam"
  let ?as = "plan_amounts amountsParam"
  let ?tok = "param_or tokenParam ''BTC''"
  let ?ts = "map_index (make_trade ?tok ?as) ?cs"
  let ?r = "\<lparr>plan_of = \<lparr>ep_token = toUpperCase ?tok, ep_status = ''ready_for_execution'', trades = ?ts\<rparr>,
             transactionPayloads = map_index (make_payload ?tok ?as) ?cs\<rparr>"
  have run: "plan strategyParam tokenParam chainsParam amountsParam = Inr ?r"
    using assms by (simp add: plan_def Let_def)
  have len: "length ?ts = length ?cs"
    by (simp add: length_map_index)
  have chains: "map tr_chain ?ts = ?cs"
    by (simp add: map_map_index make_trade_def map_index_fst)
  have "map tr_priority ?ts = map Suc [0..<length ?cs]"
    by (simp add: map_map_index make_trade_def map_index_snd)
  then have prio: "map tr_priority ?ts = [1..<length ?cs + 1]"
    by (simp add: map_Suc_upt)
  have each: "\<forall>i < length ?cs.
      tr_priority (?ts ! i) = i + 1
      \<and> (i < length ?as \<and> ?as ! i \<noteq> [] \<longrightarrow> tr_amount (?ts ! i) = ?as ! i)
      \<and> (length ?as \<le> i \<longrightarrow> tr_amount (?ts ! i) = ''1000'')"
    by (simp add: nth_map_index make_trade_def amount_at_def)
  show ?thesis
    using run len chains prio each by simp
qed

text \<open>The theorem at a request for three chains with a single amount.\<close>

theorem plan_trades_witness:
  "\<exists>r. plan (Some ''surf'') (Some ''eth'') (Some ''bsc,near,polygon'') (Some ''250'') = Inr r
     \<and> map tr_chain (trades (plan_of r)) = [''bsc'', ''near'', ''polygon'']
     \<and> map tr_priority (trades (plan_of r)) = [1, 2, 3]
     \<and> tr_amount (trades (plan_of r) ! 0) = ''250''
     \<and> tr_amount (trades (plan_of r) ! 1) = ''1000''
     \<and> tr_amount (trades (plan_of r) ! 2) = ''1000''"
proof -
  have cs: "plan_chains (Some ''bsc,near,polygon'') = [''bsc'', ''near'', ''polygon'']"
    by (simp add: plan_chains_def split_comma_def)
  have am: "plan_amounts (Some ''250'') = [''250'']"
    by (simp add: plan_amounts_def split_comma_def)
  obtain r where r: "plan (Some ''surf'') (Some ''eth'') (Some ''bsc,near,polygon'') (Some ''250'') = Inr r"
    and ch: "map tr_chain (trades (plan_of r)) = plan_chains (Some ''bsc,near,polygon'')"
    and pr: "map tr_priority (trades (plan_of r)) = [1..<length (plan_chains (Some ''bsc,near,polygon'')) + 1]"
    and ea: "\<forall>i < length (plan_chains (Some ''bsc,near,polygon'')).
                 tr_priority (trades (plan_of r) ! i) = i + 1
                 \<and> (i < length (plan_amounts (Some ''250'')) \<and> plan_amounts (Some ''250'') ! i \<noteq> []
                      \<longrightarrow> tr_amount (trades (plan_of r) ! i) = plan_amounts (Some ''250'') ! i)
                 \<and> (length (plan_amounts (Some ''250'')) \<le> i
                      \<longrightarrow> tr_amount (trades (plan_of r) ! i) = ''1000'')"
    using plan_trades [of "Some ''surf''" "''surf''" "Some ''eth''" "Some ''bsc,near,polygon''" "Some ''250''"]
    by auto
  have a0: "tr_amount (trades (plan_of r) ! 0) = ''250''"
    using ea [THEN spec, of 0] by (simp add: cs am)
  have a1: "tr_amount (trades (plan_of r) ! 1) = ''1000''"
    using ea [THEN spec, of 1] by (simp add: cs am)
  have a2: "tr_amount (trades (plan_of r) ! 2) = ''1000''"
    using ea [THEN spec, of 2] by (simp add: cs am)
  have "map tr_priority (trades (plan_of r)) = [1, 2, 3]"
    using pr cs by (simp add: upt_rec)
  then show ?thesis using r ch cs a0 a1 a2 by simp
qed

text \<open>
  Claim C8. Whatever the token, chains and amounts, an absent or empty strategy
  parameter is answered with status 400 and the message that the parameter is
  required, and no plan; and the planner fails in no other case.
\<close>

theorem plan_strategy_required:
  "(strategyParam = None \<or> strategyParam = Some [] \<longrightarrow>
      plan strategyParam tokenParam chainsParam amountsParam = Inl (Err 400 ''Strategy parameter is required''))
   \<and> (isl (plan strategyParam tokenParam chainsParam amountsParam) \<longrightarrow>
      strategyParam = None \<or> strategyParam = Some [])"
  by (simp add: plan_def Let_def)

text \<open>The theorem at an empty, an absent and a present strategy parameter.\<close>

theorem plan_strategy_required_witness:
  "plan (Some []) (Some ''SOL'') (Some ''near'') None = Inl (Err 400 ''Strategy parameter is required'')
   \<and> plan None None None None = Inl (Err 400 ''Strategy parameter is required'')
   \<and> \<not> isl (plan (Some ''s1'') None None None)"
  using plan_strategy_required [of "Some []" "Some ''SOL''" "Some ''near''" None]
    plan_strategy_required [of None None None None]
    plan_strategy_required [of "Some ''s1''" None None None]
  by auto

section \<open>Properties of the strategy builder\<close>

lemma filteredAllocation_keys:
  "fst ` set (filteredAllocation requested template) = fst ` set template \<inter> set requested"
  by (auto simp: filteredAllocation_def image_iff)

lemma filteredAllocation_distinct:
  "distinct (map fst template) \<Longrightarrow> distinct (map fst (filteredAllocation requested template))"
  by (simp add: filteredAllocation_def distinct_map_filter)

lemma filteredAllocation_entry:
  assumes "distinct (map fst template)" and "(c, d) \<in> set (filteredAllocation requested template)"
  shows "map_of template c = Some d"
proof -
  from assms(2) have "(c, d) \<in> set template"
    by (simp add: filteredAllocation_def)
  with assms(1) show ?thesis by simp
qed

lemma strategies_supported:
  "(\<exists>strat. map_of (strategies maxPos) k = Some strat) \<longleftrightarrow> k \<in> {''BTC'', ''ETH'', ''SOL''}"
  by (simp add: strategies_def)

lemma strategies_distinct:
  assumes "map_of (strategies maxPos) k = Some strat"
  shows "distinct (map fst (allocation strat))"
proof -
  from assms have "k = ''BTC'' \<or> k = ''ETH'' \<or> k = ''SOL''"
    using strategies_supported [of maxPos k] by blast
  then show ?thesis
    using assms by (elim disjE) (simp_all add: strategies_def, auto)
qed

lemma riskMultiplier_levels:
  "riskMultiplier ''low'' = 3 / 10" "riskMultiplier ''medium'' = 6 / 10" "riskMultiplier ''high'' = 9 / 10"
  by (simp_all add: riskMultiplier_def riskMultipliers_def)

text \<open>
  Claim C4. For a token that has a template and a risk level among low, medium and
  high, whatever the budget (so for every positive one) and the requested chains, the
  builder answers with \<open>maxPosition = budget * m\<close>, where \<open>m\<close> is 0.3, 0.6 or 0.9, and
  with an allocation whose chains are those of the template that were requested. Each
  entry kept is the template's entry for its chain, with the same percentage, amount,
  symbol and reasoning: nothing is renormalized.
\<close>

theorem buildStrategy_allocation:
  assumes supported: "toUpperCase (param_or tokenParam ''BTC'') \<in> {''BTC'', ''ETH'', ''SOL''}"
    and level: "param_or riskParam ''medium'' \<in> {''low'', ''medium'', ''high''}"
  shows "\<exists>r template.
           buildStrategy tokenParam budget riskParam chainsParam = Inr r
         \<and> maxPosition r =
             budget * (if param_or riskParam ''medium'' = ''low'' then 3 / 10
                       else if param_or riskParam ''medium'' = ''medium'' then 6 / 10
                       else 9 / 10)
         \<and> map_option allocation
             (map_of (strategies (maxPosition r)) (toUpperCase (param_or tokenParam ''BTC''))) = Some template
         \<and> distinct (map fst (sb_allocation (sr_strategy r)))
         \<and> fst ` set (sb_allocation (sr_strategy r))
             = fst ` set template \<inter> set (list_param_or chainsParam strategy_default_chains)
         \<and> (\<forall>(chain, d) \<in> set (sb_allocation (sr_strategy r)). map_of template chain = Some d)"
proof -
  let ?tok = "param_or tokenParam ''BTC''"
  let ?risk = "param_or riskParam ''medium''"
  let ?chains = "list_param_or chainsParam strategy_default_chains"
  let ?mp = "budget * riskMultiplier ?risk"
  from supported obtain strat where strat: "map_of (strategies ?mp) (toUpperCase ?tok) = Some strat"
    using strategies_supported [of ?mp "toUpperCase ?tok"] by blast
  define filtered where "filtered = filteredAllocation ?chains (allocation strat)"
  define r where "r = \<lparr>sr_token = toUpperCase ?tok, sr_budget = budget, sr_riskLevel = ?risk,
             maxPosition = ?mp,
             sr_strategy = \<lparr>sb_primary = primary strat, sb_allocation = filtered,
                            sb_executionOrder = executionOrder filtered,
                            sb_exitStrategy = exitStrategy strat\<rparr>\<rparr>"
  have run: "buildStrategy tokenParam budget riskParam chainsParam = Inr r"
    using strat by (simp add: buildStrategy_def Let_def r_def filtered_def)
  have "riskMultiplier ?risk = (if ?risk = ''low'' then 3 / 10 else if ?risk = ''medium'' then 6 / 10 else 9 / 10)"
    using level riskMultiplier_levels by auto
  then have mp: "maxPosition r =
      budget * (if ?risk = ''low'' then 3 / 10 else if ?risk = ''medium'' then 6 / 10 else 9 / 10)"
    by (simp only: r_def strategy_response.simps)
  have tmpl: "map_option allocation (map_of (strategies (maxPosition r)) (toUpperCase ?tok))
                = Some (allocation strat)"
    using strat by (simp add: r_def)
  have dist: "distinct (map fst (allocation strat))"
    using strat by (rule strategies_distinct)
  have al: "sb_allocation (sr_strategy r) = filtered"
    by (simp add: r_def)
  have d: "distinct (map fst (sb_allocation (sr_strategy r)))"
    unfolding al filtered_def using dist by (rule filteredAllocation_distinct)
  have k: "fst ` set (sb_allocation (sr_strategy r)) = fst ` set (allocation strat) \<inter> set ?chains"
    unfolding al filtered_def by (rule filteredAllocation_keys)
  have e: "\<forall>(chain, d) \<in> set (sb_allocation (sr_strategy r)). map_of (allocation strat) chain = Some d"
    unfolding al filtered_def using filteredAllocation_entry [OF dist] by blast
  from run mp tmpl d k e show ?thesis by blast
qed

text \<open>The theorem at the scenario of the specification: BTC, budget 2000, low risk,
  chains ethereum and bsc. The percentages kept are 40 and 25.\<close>

theorem buildStrategy_allocation_witness:
  "\<exists>r. buildStrategy (Some ''btc'') 2000 (Some ''low'') (Some ''ethereum,bsc'') = Inr r
     \<and> maxPosition r = 600
     \<and> fst ` set (sb_allocation (sr_strategy r)) = {''ethereum'', ''bsc''}
     \<and> (\<forall>(chain, d) \<in> set (sb_allocation (sr_strategy r)).
          map_of [(''ethereum'', (40, 240, ''wBTC'', ''Highest liquidity, lowest slippage'')),
                  (''bsc'', (25, 150, ''BTCB'', ''Good liquidity, lower fees''))] chain
            = Some (percentage d, amount d, ad_symbol d, reasoning d))"
proof -
  have up: "toUpperCase (param_or (Some ''btc'') ''BTC'') = ''BTC''"
    by (simp add: toUpperCase_def upper_char_def)
  have a: "toUpperCase (param_or (Some ''btc'') ''BTC'') \<in> {''BTC'', ''ETH'', ''SOL''}"
    unfolding up by simp
  have b: "param_or (Some ''low'') ''medium'' \<in> {''low'', ''medium'', ''high''}"
    by simp
  have cs: "list_param_or (Some ''ethereum,bsc'') strategy_default_chains = [''ethereum'', ''bsc'']"
    by (simp add: split_comma_def)
  obtain r template where r: "buildStrategy (Some ''btc'') 2000 (Some ''low'') (Some ''ethereum,bsc'') = Inr r"
    and mp: "maxPosition r = 600"
    and tmpl: "map_option allocation (map_of (strategies (maxPosition r)) ''BTC'') = Some template"
    and keys: "fst ` set (sb_allocation (sr_strategy r)) = fst ` set template \<inter> {''ethereum'', ''bsc''}"
    and ent: "\<forall>(chain, d) \<in> set (sb_allocation (sr_strategy r)). map_of template chain = Some d"
    using buildStrategy_allocation [OF a b, of 2000 "Some ''ethereum,bsc''"] unfolding up cs
    by auto
  have template: "template =
      [(''ethereum'', alloc 40 (4 / 10) 600 ''wBTC'' ''Highest liquidity, lowest slippage''),
       (''bsc'', alloc 25 (25 / 100) 600 ''BTCB'' ''Good liquidity, lower fees''),
       (''polygon'', alloc 20 (2 / 10) 600 ''wBTC'' ''Low fees, decent liquidity''),
       (''solana'', alloc 15 (15 / 100) 600 ''Portal BTC'' ''Fast execution, growing ecosystem'')]"
    using tmpl unfolding mp by (simp add: strategies_def)
  have k: "fst ` set (sb_allocation (sr_strategy r)) = {''ethereum'', ''bsc''}"
    unfolding keys template by auto
  have "\<forall>(chain, d) \<in> set (sb_allocation (sr_strategy r)).
          map_of [(''ethereum'', (40, 240, ''wBTC'', ''Highest liquidity, lowest slippage'')),
                  (''bsc'', (25, 150, ''BTCB'', ''Good liquidity, lower fees''))] chain
            = Some (percentage d, amount d, ad_symbol d, reasoning d)"
  proof (clarify)
    fix chain d assume in_set: "(chain, d) \<in> set (sb_allocation (sr_strategy r))"
    then have "chain \<in> {''ethereum'', ''bsc''}"
      using k by (metis fst_conv image_eqI)
    moreover have "map_of template chain = Some d"
      using ent in_set by blast
    ultimately show "map_of [(''ethereum'', (40, 240, ''wBTC'', ''Highest liquidity, lowest slippage'')),
                  (''bsc'', (25, 150, ''BTCB'', ''Good liquidity, lower fees''))] chain
            = Some (percentage d, amount d, ad_symbol d, reasoning d)"
      unfolding template by (auto simp: alloc_def)
  qed
  then show ?thesis using r mp k by blast
qed

section \<open>Properties of the cross-chain price operation\<close>

lemmas price_eval = price_def Let_def toUpperCase_def upper_char_def tokenMapping_def split_comma_def
  getChainInfo_def obj_get_def object_prototype_members_def chainVariations_def wrapped_symbol_def
  tokenSymbols_def store_quote_def arbitrage_of_def math_min_def math_max_def find_chain_def
  js_add_def js_sub_def js_mul_def js_div_def js_gt_def js_ge_def js_eq_def js_min2_def js_max2_def
  is_zero_def signed_zero_def signed_inf_def

text \<open>
  Claim C3 says that every non-empty quote set of the price operation has
  \<open>maxPrice \<ge> minPrice\<close>. The handler at a request for BTC on the chain \<^verbatim>\<open>constructor\<close>, with
  base price 100: both table lookups find the inherited member, which is truthy, so the
  guard \<^verbatim>\<open>!chainData || !symbol\<close> lets the chain through; its price factor is
  \<^verbatim>\<open>undefined\<close> and its price NaN. The answer is a quote set with that one quote, the
  minimum and the maximum are NaN, \<open>maxPrice \<ge> minPrice\<close> is false, and the spread
  reported is NaN.
\<close>

theorem price_inherited_chain_nan:
  "price (Some ''BTC'') (Some ''constructor'')
      (Body (Some \<lparr>td_usd = 100, td_usd_24h_vol = JNum 0, td_usd_24h_change = JNull\<rparr>))
      None (\<lambda>i. 1 / 2)
   = Inr \<lparr>pr_token = ''BTC'',
          pr_chains = [(''constructor'', \<lparr>cd_symbol = Inherited, cd_price = NaN,
                                          cd_slippage = JUndefined, cd_dex = None\<rparr>)],
          pr_arbitrage = \<lparr>opportunity = NaN, buyChain = None, sellChain = None,
                          profitable = False, minSpread = ''0.5%''\<rparr>,
          pr_marketData = \<lparr>pm_basePrice = 100, pm_volume24h = 0, pm_change24h = 0,
                           pm_binanceData = None\<rparr>\<rparr>
   \<and> math_min NaN [] = NaN \<and> math_max NaN [] = NaN
   \<and> \<not> js_ge (math_max NaN []) (math_min NaN [])"
  by (simp add: price_eval)

text \<open>The same handler on chains that name no inherited member: every price is a
  number, the largest is at least the smallest, and the spread and the flag are
  computed from the two as the claim says, in JavaScript's arithmetic.\<close>

lemma js_lt_irrefl: "\<not> js_lt x x"
  by (cases x) simp_all

lemma js_not_lt_trans:
  assumes "a \<noteq> NaN" "b \<noteq> NaN" "c \<noteq> NaN" and "\<not> js_lt a b" and "\<not> js_lt b c"
  shows "\<not> js_lt a c"
  using assms by (cases a; cases b; cases c) simp_all

lemma js_lt_asym: "js_lt x y \<Longrightarrow> \<not> js_lt y x"
  by (cases x; cases y) simp_all

lemma js_min2_below:
  assumes "m \<noteq> NaN" and "q \<noteq> NaN"
  shows "js_min2 m q \<noteq> NaN \<and> \<not> js_lt m (js_min2 m q)"
  using assms by (auto simp: js_min2_def js_lt_irrefl dest: js_lt_asym)

lemma js_max2_above:
  assumes "m \<noteq> NaN" and "q \<noteq> NaN"
  shows "js_max2 m q \<noteq> NaN \<and> \<not> js_lt (js_max2 m q) m"
  using assms by (auto simp: js_max2_def js_lt_irrefl dest: js_lt_asym)

lemma math_min_below:
  assumes "p \<noteq> NaN" and "\<forall>q \<in> set ps. q \<noteq> NaN"
  shows "math_min p ps \<noteq> NaN \<and> \<not> js_lt p (math_min p ps)"
  using assms
proof (induction ps arbitrary: p)
  case Nil
  then show ?case by (simp add: math_min_def js_lt_irrefl)
next
  case (Cons q ps)
  have step: "js_min2 p q \<noteq> NaN" "\<not> js_lt p (js_min2 p q)"
    using js_min2_below [of p q] Cons.prems by simp_all
  have rest: "math_min (js_min2 p q) ps \<noteq> NaN" "\<not> js_lt (js_min2 p q) (math_min (js_min2 p q) ps)"
    using Cons.IH [of "js_min2 p q"] step(1) Cons.prems(2) by simp_all
  have "\<not> js_lt p (math_min (js_min2 p q) ps)"
    using js_not_lt_trans [OF Cons.prems(1) step(1) rest(1) step(2) rest(2)] .
  with rest(1) show ?case by (simp add: math_min_def)
qed

lemma math_max_above:
  assumes "p \<noteq> NaN" and "\<forall>q \<in> set ps. q \<noteq> NaN"
  shows "math_max p ps \<noteq> NaN \<and> \<not> js_lt (math_max p ps) p"
  using assms
proof (induction ps arbitrary: p)
  case Nil
  then show ?case by (simp add: math_max_def js_lt_irrefl)
next
  case (Cons q ps)
  have step: "js_max2 p q \<noteq> NaN" "\<not> js_lt (js_max2 p q) p"
    using js_max2_above [of p q] Cons.prems by simp_all
  have rest: "math_max (js_max2 p q) ps \<noteq> NaN" "\<not> js_lt (math_max (js_max2 p q) ps) (js_max2 p q)"
    using Cons.IH [of "js_max2 p q"] step(1) Cons.prems(2) by simp_all
  have "\<not> js_lt (math_max (js_max2 p q) ps) p"
    using js_not_lt_trans [OF rest(1) step(1) Cons.prems(1) rest(2) step(2)] .
  with rest(1) show ?case by (simp add: math_max_def)
qed

lemma math_max_ge_math_min:
  assumes "p \<noteq> NaN" and "\<forall>q \<in> set ps. q \<noteq> NaN"
  shows "js_ge (math_max p ps) (math_min p ps)"
proof -
  have lo: "math_min p ps \<noteq> NaN" "\<not> js_lt p (math_min p ps)"
    using math_min_below [OF assms] by simp_all
  have hi: "math_max p ps \<noteq> NaN" "\<not> js_lt (math_max p ps) p"
    using math_max_above [OF assms] by simp_all
  have "\<not> js_lt (math_max p ps) (math_min p ps)"
    using js_not_lt_trans [OF hi(1) assms(1) lo(1) hi(2) lo(2)] .
  with lo(1) hi(1) show ?thesis by (simp add: js_ge_def)
qed

lemma js_add_Fin: "js_add (Fin a) (Fin b) = Fin (a + b)"
  by (simp add: js_add_def signed_zero_def)

lemma js_mul_Fin_not_NaN: "js_mul (Fin a) (Fin b) \<noteq> NaN"
  by (simp add: js_mul_def signed_zero_def)

lemma getChainInfo_own_price:
  assumes own: "chain \<notin> set object_prototype_members"
    and quote: "getChainInfo chain tok basePrice vol random = Some chainInfo"
  shows "cd_price chainInfo \<noteq> NaN"
proof -
  have present: "obj_get chainVariations chain \<noteq> Absent"
    using quote by (auto simp: getChainInfo_def Let_def split: if_splits)
  have "obj_get chainVariations chain \<noteq> Inherited"
    using own by (simp add: obj_get_def split: option.splits)
  with present obtain priceFactor slip venue
    where row: "obj_get chainVariations chain = Own (priceFactor, slip, venue)"
    by (cases "obj_get chainVariations chain") auto
  have "priceFactor_of (obj_get chainVariations chain) = Fin priceFactor"
    unfolding row by simp
  then have "\<exists>factor. cd_price chainInfo = js_mul (Fin basePrice) (Fin factor)"
    using quote
    by (auto simp: getChainInfo_def Let_def js_add_Fin split: if_splits)
  then show ?thesis
    by (metis js_mul_Fin_not_NaN)
qed

lemma obj_set_subset: "set (obj_set k v acc) \<subseteq> insert (k, v) (set acc)"
  by (induction acc) (auto split: if_splits)

lemma obj_set_prices:
  assumes "\<forall>kv \<in> set acc. cd_price (snd kv) \<noteq> NaN" and "cd_price chainInfo \<noteq> NaN"
  shows "\<forall>kv \<in> set (obj_set chain chainInfo acc). cd_price (snd kv) \<noteq> NaN"
proof
  fix kv assume "kv \<in> set (obj_set chain chainInfo acc)"
  then have "kv = (chain, chainInfo) \<or> kv \<in> set acc"
    using obj_set_subset [of chain chainInfo acc] by auto
  then show "cd_price (snd kv) \<noteq> NaN"
    using assms by auto
qed

lemma crossChainPrices_own_prices:
  assumes "set chain_list \<inter> set object_prototype_members = {}"
    and "\<forall>kv \<in> set acc. cd_price (snd kv) \<noteq> NaN"
  shows "\<forall>kv \<in> set (crossChainPrices rnd i tok basePrice vol chain_list acc). cd_price (snd kv) \<noteq> NaN"
  using assms
proof (induction chain_list arbitrary: i acc)
  case Nil
  then show ?case by simp
next
  case (Cons chain rest)
  have own: "chain \<notin> set object_prototype_members"
    and rest: "set rest \<inter> set object_prototype_members = {}"
    using Cons.prems(1) by auto
  show ?case
  proof (cases "getChainInfo chain tok basePrice vol (rnd i)")
    case None
    then show ?thesis
      using Cons.IH [OF rest Cons.prems(2)] by simp
  next
    case (Some chainInfo)
    have "cd_price chainInfo \<noteq> NaN"
      using getChainInfo_own_price [OF own Some] .
    then have "\<forall>kv \<in> set (store_quote chain chainInfo acc). cd_price (snd kv) \<noteq> NaN"
      unfolding store_quote_def using obj_set_prices [OF Cons.prems(2)] Cons.prems(2) by simp
    then show ?thesis
      using Cons.IH [OF rest] Some by simp
  qed
qed

lemma price_Inr:
  assumes "price tokenParam chainsParam fetched binance rnd = Inr r"
  shows "\<exists>(tokenData :: token_data) p ps.
           pr_chains r = crossChainPrices rnd 0 (toUpperCase (param_or tokenParam ''BTC''))
              (td_usd tokenData) (or0 (td_usd_24h_vol tokenData))
              (list_param_or chainsParam price_default_chains) []
         \<and> map (cd_price \<circ> snd) (pr_chains r) = p # ps
         \<and> pr_arbitrage r = arbitrage_of (pr_chains r) p ps"
proof -
  let ?tok = "param_or tokenParam ''BTC''"
  from assms obtain tokenId where "map_of tokenMapping (toUpperCase ?tok) = Some tokenId"
    by (cases "map_of tokenMapping (toUpperCase ?tok)") (simp_all add: price_def Let_def)
  note supported = this
  from assms supported obtain tokenData :: token_data where fetched: "fetched = Body (Some tokenData)"
    by (cases fetched) (auto simp: price_def Let_def split: option.splits)
  let ?quotes = "crossChainPrices rnd 0 (toUpperCase ?tok) (td_usd tokenData)
      (or0 (td_usd_24h_vol tokenData)) (list_param_or chainsParam price_default_chains) []"
  show ?thesis
  proof (cases "map (cd_price \<circ> snd) ?quotes")
    case Nil
    then show ?thesis
      using assms supported fetched by (simp add: price_def Let_def)
  next
    case (Cons p ps)
    then have "r = \<lparr>pr_token = toUpperCase ?tok, pr_chains = ?quotes,
        pr_arbitrage = arbitrage_of ?quotes p ps,
        pr_marketData = \<lparr>pm_basePrice = td_usd tokenData,
          pm_volume24h = or0 (td_usd_24h_vol tokenData),
          pm_change24h = or0 (td_usd_24h_change tokenData), pm_binanceData = binance\<rparr>\<rparr>"
      using assms supported fetched by (simp add: price_def Let_def)
    then have chains: "pr_chains r = ?quotes" and arb: "pr_arbitrage r = arbitrage_of (pr_chains r) p ps"
      by simp_all
    have prices: "map (cd_price \<circ> snd) (pr_chains r) = p # ps"
      unfolding chains by (rule Cons)
    show ?thesis
      by (intro exI conjI) (rule chains, rule prices, rule arb)
  qed
qed

lemma price_arbitrage_own_chains:
  assumes run: "price tokenParam chainsParam fetched binance rnd = Inr r"
    and own: "set (list_param_or chainsParam price_default_chains) \<inter> set object_prototype_members = {}"
  shows "\<exists>p ps. map (cd_price \<circ> snd) (pr_chains r) = p # ps
         \<and> (\<forall>q \<in> set (p # ps). q \<noteq> NaN)
         \<and> js_ge (math_max p ps) (math_min p ps)
         \<and> opportunity (pr_arbitrage r)
             = js_mul (js_div (js_sub (math_max p ps) (math_min p ps)) (math_min p ps)) (Fin 100)
         \<and> profitable (pr_arbitrage r) = js_gt (opportunity (pr_arbitrage r)) (Fin 1)"
proof -
  from price_Inr [OF run] obtain tokenData :: token_data and p ps
    where quotes: "pr_chains r = crossChainPrices rnd 0 (toUpperCase (param_or tokenParam ''BTC''))
              (td_usd tokenData) (or0 (td_usd_24h_vol tokenData))
              (list_param_or chainsParam price_default_chains) []"
      and prices: "map (cd_price \<circ> snd) (pr_chains r) = p # ps"
      and arb: "pr_arbitrage r = arbitrage_of (pr_chains r) p ps"
    by (elim exE conjE)
  have empty: "\<forall>kv \<in> set ([] :: (string \<times> ChainData) list). cd_price (snd kv) \<noteq> NaN"
    by simp
  have "\<forall>kv \<in> set (pr_chains r). cd_price (snd kv) \<noteq> NaN"
    unfolding quotes using own empty by (rule crossChainPrices_own_prices)
  then have "\<forall>q \<in> set (map (cd_price \<circ> snd) (pr_chains r)). q \<noteq> NaN"
    by simp
  then have nums: "\<forall>q \<in> set (p # ps). q \<noteq> NaN"
    unfolding prices .
  have "p \<noteq> NaN" and "\<forall>q \<in> set ps. q \<noteq> NaN"
    using nums by simp_all
  then have ge: "js_ge (math_max p ps) (math_min p ps)"
    by (rule math_max_ge_math_min)
  have opp: "opportunity (pr_arbitrage r)
             = js_mul (js_div (js_sub (math_max p ps) (math_min p ps)) (math_min p ps)) (Fin 100)"
    unfolding arb arbitrage_of_def by (simp only: Let_def arbitrage.simps)
  have prof: "profitable (pr_arbitrage r) = js_gt (opportunity (pr_arbitrage r)) (Fin 1)"
    unfolding arb arbitrage_of_def by (simp only: Let_def arbitrage.simps)
  show ?thesis
    by (intro exI conjI) (rule prices, rule nums, rule ge, rule opp, rule prof)
qed

section \<open>Properties of the technical analyzer\<close>

lemma math_round_mono: "x \<le> y \<Longrightarrow> math_round x \<le> math_round y"
  by (simp add: math_round_def floor_mono)

lemma math_round_of_int: "math_round (of_int k) = of_int k"
  unfolding math_round_def by (simp add: floor_unique)

lemma math_round_between:
  assumes "of_int a \<le> x" and "x \<le> of_int b"
  shows "of_int a \<le> math_round x \<and> math_round x \<le> of_int b"
  using math_round_mono [OF assms(1)] math_round_mono [OF assms(2)]
  by (simp add: math_round_of_int)

lemma sum_list_nonneg_real: "(\<And>x. x \<in> set xs \<Longrightarrow> (0::real) \<le> x) \<Longrightarrow> 0 \<le> sum_list xs"
  by (induction xs) auto

lemma gains_nonneg: "x \<in> set (slice_last14 (gains prices)) \<Longrightarrow> 0 \<le> x"
  by (auto simp: slice_last14_def gains_def dest!: in_set_dropD)

lemma losses_nonneg: "x \<in> set (slice_last14 (losses prices)) \<Longrightarrow> 0 \<le> x"
  by (auto simp: slice_last14_def losses_def dest!: in_set_dropD)

lemma avgGain_nonneg: "0 \<le> avgGain prices"
  unfolding avgGain_def using sum_list_nonneg_real [of "slice_last14 (gains prices)"] gains_nonneg
  by simp

lemma avgLoss_nonneg: "0 \<le> avgLoss prices"
  unfolding avgLoss_def using sum_list_nonneg_real [of "slice_last14 (losses prices)"] losses_nonneg
  by simp

lemma slice_last14_losses:
  "slice_last14 (losses prices) = map (\<lambda>c. if c < 0 then \<bar>c\<bar> else 0) (slice_last14 (deltas prices))"
  by (simp add: slice_last14_def losses_def drop_map)

lemma avgLoss_zero_iff:
  "avgLoss prices = 0 \<longleftrightarrow> (\<forall>c \<in> set (slice_last14 (deltas prices)). 0 \<le> c)"
proof -
  have "avgLoss prices = 0 \<longleftrightarrow> sum_list (slice_last14 (losses prices)) = 0"
    by (simp add: avgLoss_def)
  also have "\<dots> \<longleftrightarrow> (\<forall>x \<in> set (slice_last14 (losses prices)). x = 0)"
    using losses_nonneg by (intro sum_list_nonneg_eq_0_iff) blast
  also have "\<dots> \<longleftrightarrow> (\<forall>c \<in> set (slice_last14 (deltas prices)). 0 \<le> c)"
  proof -
    have zero: "(if c < 0 then \<bar>c\<bar> else 0) = 0 \<longleftrightarrow> 0 \<le> c" for c :: real
      by auto
    have "(\<forall>x \<in> set (map f ys). x = 0) \<longleftrightarrow> (\<forall>c \<in> set ys. f c = 0)"
      for f :: "real \<Rightarrow> real" and ys
      by auto
    then show ?thesis
      unfolding slice_last14_losses by (simp only: zero)
  qed
  finally show ?thesis .
qed

lemma rsi_formula_range:
  assumes "0 \<le> g" and "0 < l"
  shows "0 \<le> 100 - 100 / (1 + g / l) \<and> 100 - 100 / (1 + g / l) \<le> (100::real)"
proof -
  have "1 \<le> 1 + g / l" using assms by simp
  then have "100 / (1 + g / l) \<le> 100 / 1"
    by (intro divide_left_mono) simp_all
  moreover have "0 \<le> 100 / (1 + g / l)" using assms by simp
  ultimately show ?thesis by simp
qed

text \<open>
  Claim C6. For every price series the oscillator lies between 0 and 100. A series of
  fewer than 14 points gives exactly 50. A series of at least 14 points whose average
  loss over the most recent 14 deltas is zero gives exactly 100; the average loss is
  zero exactly when none of those deltas is negative.
\<close>

theorem calculateRSI_range:
  "0 \<le> calculateRSI prices \<and> calculateRSI prices \<le> 100
   \<and> (length prices < 14 \<longrightarrow> calculateRSI prices = 50)
   \<and> (14 \<le> length prices \<and> avgLoss prices = 0 \<longrightarrow> calculateRSI prices = 100)
   \<and> (14 \<le> length prices \<and> (\<forall>c \<in> set (slice_last14 (deltas prices)). 0 \<le> c)
        \<longrightarrow> calculateRSI prices = 100)"
proof -
  have short: "length prices < 14 \<longrightarrow> calculateRSI prices = 50"
    by (simp add: calculateRSI_def)
  have flat: "14 \<le> length prices \<and> avgLoss prices = 0 \<longrightarrow> calculateRSI prices = 100"
    by (simp add: calculateRSI_def)
  have range: "0 \<le> calculateRSI prices \<and> calculateRSI prices \<le> 100"
  proof (cases "length prices < 14 \<or> avgLoss prices = 0")
    case True
    then show ?thesis by (auto simp: calculateRSI_def)
  next
    case False
    then have pos: "0 < avgLoss prices"
      using avgLoss_nonneg [of prices] by simp
    have eq: "calculateRSI prices = math_round (100 - 100 / (1 + avgGain prices / avgLoss prices))"
      using False by (simp add: calculateRSI_def Let_def)
    have "of_int 0 \<le> 100 - 100 / (1 + avgGain prices / avgLoss prices)
        \<and> 100 - 100 / (1 + avgGain prices / avgLoss prices) \<le> of_int 100"
      using rsi_formula_range [OF avgGain_nonneg pos] by simp
    then have "of_int 0 \<le> math_round (100 - 100 / (1 + avgGain prices / avgLoss prices))
        \<and> math_round (100 - 100 / (1 + avgGain prices / avgLoss prices)) \<le> of_int 100"
      by (intro math_round_between) simp_all
    then show ?thesis unfolding eq by simp
  qed
  from short flat range show ?thesis
    using avgLoss_zero_iff [of prices] by blast
qed


text \<open>The theorem at a short series, at a rising series of 14 points and at a series
  with one fall.\<close>

theorem calculateRSI_range_witness:
  "calculateRSI [1, 2, 3] = 50
   \<and> avgLoss [1, 2, 3, 4, 5, 6, 7, 8, 9, 10, 11, 12, 13, 14] = 0
   \<and> calculateRSI [1, 2, 3, 4, 5, 6, 7, 8, 9, 10, 11, 12, 13, 14] = 100
   \<and> 0 \<le> calculateRSI [10, 11, 12, 13, 14, 15, 16, 17, 18, 19, 20, 21, 20, 21]
   \<and> calculateRSI [10, 11, 12, 13, 14, 15, 16, 17, 18, 19, 20, 21, 20, 21] \<le> 100"
proof -
  have len: "length [1, 2, 3 :: real] < 14" by simp
  have loss: "avgLoss [1, 2, 3, 4, 5, 6, 7, 8, 9, 10, 11, 12, 13, 14] = 0"
    by (simp add: avgLoss_def losses_def slice_last14_def)
  have len14: "14 \<le> length [1, 2, 3, 4, 5, 6, 7, 8, 9, 10, 11, 12, 13, 14 :: real]" by simp
  show ?thesis
    using calculateRSI_range [of "[1, 2, 3]"] len
      calculateRSI_range [of "[1, 2, 3, 4, 5, 6, 7, 8, 9, 10, 11, 12, 13, 14]"] loss len14
      calculateRSI_range [of "[10, 11, 12, 13, 14, 15, 16, 17, 18, 19, 20, 21, 20, 21]"]
    by blast
qed

section \<open>Properties of the analyze operation\<close>

lemmas analyze_eval = analyze_def Let_def toUpperCase_def upper_char_def getTokenId_def tokenMapping_def
  split_comma_def timeframeAnalysis_def timeframe_entry_def avgScore_def timeframe_score_def
  momentum_ladder_def math_round_def determineTrend_def calculateRSI_def analyzeVolumeProfile_def
  analyzeCrossChainFlow_def calculateSocialSentiment_def

lemma analyze_Inr:
  assumes "analyze tokenParam timeframesParam fetched = Inr r"
  shows "\<exists>coinData md. fetched = Body coinData \<and> market_data_of coinData = Some md
           \<and> timeframes r = timeframeAnalysis (list_param_or timeframesParam defaultTimeframes) md
           \<and> momentumScore r = math_round (avgScore (timeframes r) * 10) / 10
           \<and> status r = fst (momentum_ladder (avgScore (timeframes r)))
           \<and> recommendation r = snd (momentum_ladder (avgScore (timeframes r)))"
  using assms
  by (auto simp: analyze_def Let_def split: option.splits upstream.splits)

lemma timeframe_entry_shape:
  "timeframe_entry tfs md key field = []
   \<or> key \<in> set tfs \<and> opt_usd field \<noteq> JNull \<and> (\<exists>d. timeframe_entry tfs md key field = [(key, d)])"
  unfolding timeframe_entry_def by (rule if_split [THEN iffD2]) blast

lemma timeframe_entry_keys: "fst ` set (timeframe_entry tfs md key field) \<subseteq> {key} \<inter> set tfs"
  using timeframe_entry_shape [of tfs md key field] by auto

lemma timeframe_entry_length: "length (timeframe_entry tfs md key field) \<le> (if key \<in> set tfs then 1 else 0)"
  using timeframe_entry_shape [of tfs md key field] by auto

lemma timeframeAnalysis_keys:
  "fst ` set (timeframeAnalysis tfs md) \<subseteq> {''1h'', ''24h'', ''7d''} \<inter> set tfs"
proof -
  have "fst ` set (timeframeAnalysis tfs md) =
      fst ` set (timeframe_entry tfs md ''1h'' (price_change_percentage_1h_in_currency md))
      \<union> fst ` set (timeframe_entry tfs md ''24h'' (price_change_percentage_24h_in_currency md))
      \<union> fst ` set (timeframe_entry tfs md ''7d'' (price_change_percentage_7d_in_currency md))"
    by (simp only: timeframeAnalysis_def set_append image_Un Un_assoc)
  also have "\<dots> \<subseteq> ({''1h''} \<inter> set tfs) \<union> ({''24h''} \<inter> set tfs) \<union> ({''7d''} \<inter> set tfs)"
    by (intro Un_mono timeframe_entry_keys)
  also have "\<dots> = {''1h'', ''24h'', ''7d''} \<inter> set tfs"
    by blast
  finally show ?thesis .
qed

lemma defaultTimeframes_members:
  "''1h'' \<in> set defaultTimeframes" "''24h'' \<in> set defaultTimeframes" "''7d'' \<notin> set defaultTimeframes"
  by (simp_all add: defaultTimeframes_def)

lemma timeframeAnalysis_default_length: "length (timeframeAnalysis defaultTimeframes md) \<le> 2"
proof -
  have "length (timeframe_entry defaultTimeframes md ''1h'' (price_change_percentage_1h_in_currency md)) \<le> 1"
    and "length (timeframe_entry defaultTimeframes md ''24h'' (price_change_percentage_24h_in_currency md)) \<le> 1"
    and "length (timeframe_entry defaultTimeframes md ''7d'' (price_change_percentage_7d_in_currency md)) \<le> 0"
    using timeframe_entry_length [of defaultTimeframes md] defaultTimeframes_members
    by (metis (full_types))+
  then show ?thesis
    by (simp only: timeframeAnalysis_def length_append)
qed
text \<open>
  Claim C10. In a successful answer of the analyze operation the timeframes mapping
  has no \<^verbatim>\<open>"4h"\<close> entry, whatever was requested: its keys are among \<^verbatim>\<open>"1h"\<close>, \<^verbatim>\<open>"24h"\<close>
  and \<^verbatim>\<open>"7d"\<close>. With the default request, which is \<^verbatim>\<open>["1h","4h","24h"]\<close>, there are at most
  two entries, for \<^verbatim>\<open>"1h"\<close> and \<^verbatim>\<open>"24h"\<close>.
\<close>

theorem analyze_never_4h:
  assumes "analyze tokenParam timeframesParam fetched = Inr r"
  shows "''4h'' \<notin> fst ` set (timeframes r)
       \<and> fst ` set (timeframes r) \<subseteq> {''1h'', ''24h'', ''7d''}
       \<and> (timeframesParam = None \<longrightarrow>
            length (timeframes r) \<le> 2 \<and> fst ` set (timeframes r) \<subseteq> {''1h'', ''24h''})"
proof -
  from analyze_Inr [OF assms] obtain md
    where tf: "timeframes r = timeframeAnalysis (list_param_or timeframesParam defaultTimeframes) md"
    by (elim exE conjE)
  have keys: "fst ` set (timeframes r) \<subseteq> {''1h'', ''24h'', ''7d''}"
    unfolding tf using timeframeAnalysis_keys by blast
  then have no4h: "''4h'' \<notin> fst ` set (timeframes r)"
    by auto
  have dflt: "length (timeframes r) \<le> 2 \<and> fst ` set (timeframes r) \<subseteq> {''1h'', ''24h''}"
    if "timeframesParam = None"
  proof -
    have tf': "timeframes r = timeframeAnalysis defaultTimeframes md"
      using tf that by simp
    have "fst ` set (timeframes r) \<subseteq> {''1h'', ''24h'', ''7d''} \<inter> set defaultTimeframes"
      unfolding tf' by (rule timeframeAnalysis_keys)
    then have "fst ` set (timeframes r) \<subseteq> {''1h'', ''24h''}"
      by (auto simp: defaultTimeframes_def)
    then show ?thesis
      unfolding tf' using timeframeAnalysis_default_length by blast
  qed
  from keys no4h dflt show ?thesis by blast
qed

text \<open>The theorem at a request for \<^verbatim>\<open>"4h,24h"\<close> on a snapshot that has all three
  changes.\<close>

theorem analyze_never_4h_witness:
  "\<exists>r. analyze (Some ''eth'') (Some ''4h,24h'')
      (Body \<lparr>market_data_of = Some
         \<lparr>price_change_percentage_1h_in_currency = Some \<lparr>usd = JNum 1\<rparr>,
          price_change_percentage_24h_in_currency = Some \<lparr>usd = JNum 4\<rparr>,
          price_change_percentage_7d_in_currency = Some \<lparr>usd = JNum (-2)\<rparr>,
          total_volume = Some \<lparr>usd = JNum 2000000000\<rparr>,
          market_cap = Some \<lparr>usd = JNum 400000000000\<rparr>,
          current_price = Some \<lparr>usd = JNum 3000\<rparr>,
          circulating_supply = JNum 120000000,
          sparkline_7d_price = None\<rparr>\<rparr>) = Inr r
     \<and> map fst (timeframes r) = [''24h'']
     \<and> ''4h'' \<notin> fst ` set (timeframes r)"
proof -
  let ?r = "\<lparr>token = ''ETH'', momentumScore = 50, status = ''strong'', recommendation = ''buy'',
        timeframes = [(''24h'', \<lparr>change = 4, volume = 2000000000, trend = ''bullish''\<rparr>)],
        technicals = \<lparr>rsi = 50, volumeProfile = ''decreasing'', crossChainFlow = ''positive'',
                      socialSentiment = 513 / 1000\<rparr>,
        riskLevel = ''medium'',
        marketData = \<lparr>currentPrice = 3000, marketCap = 400000000000, volume24h = 2000000000,
                      circulatingSupply = 120000000\<rparr>\<rparr>"
  have run: "analyze (Some ''eth'') (Some ''4h,24h'')
      (Body \<lparr>market_data_of = Some
         \<lparr>price_change_percentage_1h_in_currency = Some \<lparr>usd = JNum 1\<rparr>,
          price_change_percentage_24h_in_currency = Some \<lparr>usd = JNum 4\<rparr>,
          price_change_percentage_7d_in_currency = Some \<lparr>usd = JNum (-2)\<rparr>,
          total_volume = Some \<lparr>usd = JNum 2000000000\<rparr>,
          market_cap = Some \<lparr>usd = JNum 400000000000\<rparr>,
          current_price = Some \<lparr>usd = JNum 3000\<rparr>,
          circulating_supply = JNum 120000000,
          sparkline_7d_price = None\<rparr>\<rparr>) = Inr ?r"
    by (simp add: analyze_eval)
  have keys: "map fst (timeframes ?r) = [''24h'']"
    by simp
  from analyze_never_4h [OF run] have no4h: "''4h'' \<notin> fst ` set (timeframes ?r)"
    by (elim conjE)
  show ?thesis
    using run keys no4h by (intro exI [of _ ?r] conjI) assumption+
qed

text \<open>
  Claim C1 says that a timeframe whose change is missing from the market data gets no
  entry. The handler at a snapshot whose 1h change object has no \<^verbatim>\<open>usd\<close> member, asked
  for \<^verbatim>\<open>"1h"\<close>: the guard compares with \<^verbatim>\<open>null\<close> only, \<^verbatim>\<open>undefined\<close> passes it, and the
  answer has a \<^verbatim>\<open>"1h"\<close> entry with the change filled in as 0.
\<close>

theorem analyze_missing_change_zero_filled:
  "analyze (Some ''BTC'') (Some ''1h'')
      (Body \<lparr>market_data_of = Some
         \<lparr>price_change_percentage_1h_in_currency = Some \<lparr>usd = JUndefined\<rparr>,
          price_change_percentage_24h_in_currency = Some \<lparr>usd = JNum 2\<rparr>,
          price_change_percentage_7d_in_currency = Some \<lparr>usd = JNull\<rparr>,
          total_volume = Some \<lparr>usd = JNum 1000000000\<rparr>,
          market_cap = Some \<lparr>usd = JNum 1000000000000\<rparr>,
          current_price = Some \<lparr>usd = JNum 50000\<rparr>,
          circulating_supply = JNum 19000000,
          sparkline_7d_price = None\<rparr>\<rparr>)
   = Inr \<lparr>token = ''BTC'', momentumScore = 5, status = ''neutral'', recommendation = ''hold'',
        timeframes = [(''1h'', \<lparr>change = 0, volume = 1000000000, trend = ''neutral''\<rparr>)],
        technicals = \<lparr>rsi = 50, volumeProfile = ''decreasing'', crossChainFlow = ''neutral'',
                      socialSentiment = 2531 / 5000\<rparr>,
        riskLevel = ''low'',
        marketData = \<lparr>currentPrice = 50000, marketCap = 1000000000000, volume24h = 1000000000,
                      circulatingSupply = 19000000\<rparr>\<rparr>"
  by (simp add: analyze_eval)

lemma timeframe_score_upper: "timeframe_score d \<le> 75"
  unfolding timeframe_score_def by (simp add: min_def)

lemma timeframe_score_lower: "0 \<le> volume d \<Longrightarrow> 0 \<le> timeframe_score d"
  unfolding timeframe_score_def by (simp add: min_def)

lemma sum_list_upper_real: "(\<And>x. x \<in> set xs \<Longrightarrow> x \<le> (c::real)) \<Longrightarrow> sum_list xs \<le> c * real (length xs)"
proof (induction xs)
  case Nil
  show ?case by simp
next
  case (Cons a xs)
  have "a \<le> c" and "sum_list xs \<le> c * real (length xs)"
    using Cons by simp_all
  then have "a + sum_list xs \<le> c + c * real (length xs)"
    by (rule add_mono)
  then show ?case by (simp add: algebra_simps)
qed

lemma avgScore_upper: "avgScore tfa \<le> 75"
proof (cases "tfa = []")
  case True
  then show ?thesis by (simp add: avgScore_def)
next
  case False
  let ?scores = "map (timeframe_score \<circ> snd) tfa"
  have "sum_list ?scores \<le> 75 * real (length ?scores)"
    by (rule sum_list_upper_real) (auto simp: timeframe_score_upper)
  moreover have "0 < real (length ?scores)"
    using False by simp
  ultimately have "sum_list ?scores / real (length ?scores) \<le> 75"
    by (simp add: pos_divide_le_eq)
  then show ?thesis
    using False by (simp add: avgScore_def Let_def)
qed

lemma avgScore_lower:
  assumes "\<And>k d. (k, d) \<in> set tfa \<Longrightarrow> 0 \<le> volume d"
  shows "0 \<le> avgScore tfa"
proof -
  let ?scores = "map (timeframe_score \<circ> snd) tfa"
  have "0 \<le> sum_list ?scores"
    by (rule sum_list_nonneg_real) (auto simp: timeframe_score_lower assms)
  then have "0 \<le> sum_list ?scores / real (length ?scores)"
    by simp
  then show ?thesis
    by (simp add: avgScore_def Let_def)
qed

lemma timeframe_entry_volume:
  "(k, d) \<in> set (timeframe_entry tfs md key field) \<Longrightarrow> volume d = or0 (opt_usd (total_volume md))"
  by (cases "key \<in> set tfs \<and> opt_usd field \<noteq> JNull") (auto simp: timeframe_entry_def)

lemma timeframeAnalysis_volume:
  "(k, d) \<in> set (timeframeAnalysis tfs md) \<Longrightarrow> volume d = or0 (opt_usd (total_volume md))"
  unfolding timeframeAnalysis_def set_append Un_iff
  by (elim disjE) (rule timeframe_entry_volume, assumption)+

lemma momentum_ladder_nonneg:
  "0 \<le> avg \<Longrightarrow> fst (momentum_ladder avg) \<noteq> ''fading'' \<and> snd (momentum_ladder avg) \<noteq> ''sell''"
  by (simp add: momentum_ladder_def)

text \<open>
  Claim C9 as stated, for every snapshot, fails: the volume term of a contribution
  is \<open>min (volume / 1e9 * 5) 25\<close>, which is negative for a negative volume. At a
  snapshot with total volume \<open>-1e10\<close> and no price change the score is \<open>-50\<close>, the
  status is \<^verbatim>\<open>"fading"\<close> and the recommendation is \<^verbatim>\<open>"sell"\<close>.
\<close>

theorem analyze_negative_volume_counterexample:
  "analyze (Some ''BTC'') (Some ''24h'')
      (Body \<lparr>market_data_of = Some
         \<lparr>price_change_percentage_1h_in_currency = Some \<lparr>usd = JNum 0\<rparr>,
          price_change_percentage_24h_in_currency = Some \<lparr>usd = JNum 0\<rparr>,
          price_change_percentage_7d_in_currency = Some \<lparr>usd = JNum 0\<rparr>,
          total_volume = Some \<lparr>usd = JNum (-10000000000)\<rparr>,
          market_cap = Some \<lparr>usd = JNum 1000000000000\<rparr>,
          current_price = Some \<lparr>usd = JNum 50000\<rparr>,
          circulating_supply = JNum 19000000,
          sparkline_7d_price = None\<rparr>\<rparr>)
   = Inr \<lparr>token = ''BTC'', momentumScore = - 50, status = ''fading'', recommendation = ''sell'',
        timeframes = [(''24h'', \<lparr>change = 0, volume = - 10000000000, trend = ''neutral''\<rparr>)],
        technicals = \<lparr>rsi = 50, volumeProfile = ''decreasing'', crossChainFlow = ''neutral'',
                      socialSentiment = 249 / 500\<rparr>,
        riskLevel = ''low'',
        marketData = \<lparr>currentPrice = 50000, marketCap = 1000000000000, volume24h = - 10000000000,
                      circulatingSupply = 19000000\<rparr>\<rparr>"
  by (simp add: analyze_eval)

text \<open>
  Claim C9, amended. For every snapshot and every timeframe selection, the aggregate
  momentum score of a successful answer is at most 75, before and after rounding to
  one decimal, and with no entries it is 0. When the snapshot's total volume in USD is
  absent, null or a non-negative number, the score is also at least 0, the status is
  not \<^verbatim>\<open>"fading"\<close> and the recommendation is not \<^verbatim>\<open>"sell"\<close>.
\<close>

theorem analyze_score_bounds:
  assumes run: "analyze tokenParam timeframesParam fetched = Inr r"
  shows "avgScore (timeframes r) \<le> 75
       \<and> momentumScore r = math_round (avgScore (timeframes r) * 10) / 10
       \<and> momentumScore r \<le> 75
       \<and> (timeframes r = [] \<longrightarrow> momentumScore r = 0)
       \<and> (\<forall>coinData md.
             fetched = Body coinData \<and> market_data_of coinData = Some md
             \<and> 0 \<le> or0 (opt_usd (total_volume md))
             \<longrightarrow> 0 \<le> avgScore (timeframes r) \<and> 0 \<le> momentumScore r
                 \<and> status r \<noteq> ''fading'' \<and> recommendation r \<noteq> ''sell'')"
proof -
  from analyze_Inr [OF run] obtain coinData0 md0
    where fetched: "fetched = Body coinData0" and md0: "market_data_of coinData0 = Some md0"
      and tf: "timeframes r = timeframeAnalysis (list_param_or timeframesParam defaultTimeframes) md0"
      and score: "momentumScore r = math_round (avgScore (timeframes r) * 10) / 10"
      and st: "status r = fst (momentum_ladder (avgScore (timeframes r)))"
      and rec: "recommendation r = snd (momentum_ladder (avgScore (timeframes r)))"
    by (elim exE conjE)
  have upper: "avgScore (timeframes r) \<le> 75"
    by (rule avgScore_upper)
  then have "avgScore (timeframes r) * 10 \<le> of_int 750"
    by simp
  then have "math_round (avgScore (timeframes r) * 10) \<le> math_round (of_int 750)"
    by (rule math_round_mono)
  then have rounded_upper: "momentumScore r \<le> 75"
    unfolding score math_round_of_int by simp
  have empty: "timeframes r = [] \<longrightarrow> momentumScore r = 0"
    unfolding score by (simp add: avgScore_def math_round_def)
  have nonneg: "0 \<le> avgScore (timeframes r) \<and> 0 \<le> momentumScore r
      \<and> status r \<noteq> ''fading'' \<and> recommendation r \<noteq> ''sell''"
    if body: "fetched = Body coinData" and md: "market_data_of coinData = Some md"
      and vol: "0 \<le> or0 (opt_usd (total_volume md))" for coinData md
  proof -
    have "md = md0"
      using body md fetched md0 by simp
    then have vol0: "0 \<le> or0 (opt_usd (total_volume md0))"
      using vol by simp
    have lower: "0 \<le> avgScore (timeframes r)"
      unfolding tf using timeframeAnalysis_volume vol0 by (intro avgScore_lower) simp
    then have "of_int 0 \<le> avgScore (timeframes r) * 10"
      by simp
    then have "math_round (of_int 0) \<le> math_round (avgScore (timeframes r) * 10)"
      by (rule math_round_mono)
    then have rounded_lower: "0 \<le> momentumScore r"
      unfolding score math_round_of_int by simp
    have ladder: "status r \<noteq> ''fading'' \<and> recommendation r \<noteq> ''sell''"
      unfolding st rec using lower by (rule momentum_ladder_nonneg)
    from lower rounded_lower ladder show ?thesis by blast
  qed
  from upper score rounded_upper empty nonneg show ?thesis by blast
qed

text \<open>The amended theorem at a snapshot with volume \<open>8e9\<close> and the default request.\<close>

theorem analyze_score_bounds_witness:
  "\<exists>r. analyze (Some ''sol'') None
      (Body \<lparr>market_data_of = Some
         \<lparr>price_change_percentage_1h_in_currency = Some \<lparr>usd = JNum (-6)\<rparr>,
          price_change_percentage_24h_in_currency = Some \<lparr>usd = JNum 3\<rparr>,
          price_change_percentage_7d_in_currency = Some \<lparr>usd = JNum 12\<rparr>,
          total_volume = Some \<lparr>usd = JNum 8000000000\<rparr>,
          market_cap = Some \<lparr>usd = JNum 80000000000\<rparr>,
          current_price = Some \<lparr>usd = JNum 150\<rparr>,
          circulating_supply = JNum 500000000,
          sparkline_7d_price = None\<rparr>\<rparr>) = Inr r
     \<and> 0 \<le> or0 (opt_usd (Some \<lparr>usd = JNum 8000000000\<rparr>))
     \<and> 0 \<le> momentumScore r \<and> momentumScore r \<le> 75
     \<and> status r \<noteq> ''fading'' \<and> recommendation r \<noteq> ''sell''"
proof -
  let ?md = "\<lparr>price_change_percentage_1h_in_currency = Some \<lparr>usd = JNum (-6)\<rparr>,
          price_change_percentage_24h_in_currency = Some \<lparr>usd = JNum 3\<rparr>,
          price_change_percentage_7d_in_currency = Some \<lparr>usd = JNum 12\<rparr>,
          total_volume = Some \<lparr>usd = JNum 8000000000\<rparr>,
          market_cap = Some \<lparr>usd = JNum 80000000000\<rparr>,
          current_price = Some \<lparr>usd = JNum 150\<rparr>,
          circulating_supply = JNum 500000000,
          sparkline_7d_price = None\<rparr>"
  let ?body = "\<lparr>market_data_of = Some ?md\<rparr>"
  have ok: "\<not> isl (analyze (Some ''sol'') None (Body ?body))"
    by (simp add: analyze_def Let_def toUpperCase_def upper_char_def getTokenId_def tokenMapping_def)
  then obtain r where run: "analyze (Some ''sol'') None (Body ?body) = Inr r"
    by (cases "analyze (Some ''sol'') None (Body ?body)") simp_all
  have vol: "0 \<le> or0 (opt_usd (total_volume ?md))"
    by simp
  note bounds = analyze_score_bounds [OF run]
  have upper: "momentumScore r \<le> 75"
    using bounds by (elim conjE)
  have cond: "Body ?body = Body ?body \<and> market_data_of ?body = Some ?md
             \<and> 0 \<le> or0 (opt_usd (total_volume ?md))
             \<longrightarrow> 0 \<le> avgScore (timeframes r) \<and> 0 \<le> momentumScore r
                 \<and> status r \<noteq> ''fading'' \<and> recommendation r \<noteq> ''sell''"
    using bounds [THEN conjunct2, THEN conjunct2, THEN conjunct2, THEN conjunct2,
        THEN spec, THEN spec, of ?body ?md] .
  have "0 \<le> momentumScore r \<and> status r \<noteq> ''fading'' \<and> recommendation r \<noteq> ''sell''"
    using cond by simp
  with run upper vol show ?thesis
    by (intro exI [of _ r]) simp
qed

section \<open>Properties of the momentum scanner and scorer\<close>

lemma insert_by_descending:
  "insert_by (\<lambda>a b. f b - f a) x ys = insort_key (\<lambda>t. - f t) x ys"
  for f :: "'a \<Rightarrow> real"
  by (induction ys) simp_all

lemma array_sort_descending:
  "array_sort (\<lambda>a b. f b - f a) xs = sort_key (\<lambda>t. - f t) xs"
  for f :: "'a \<Rightarrow> real"
  by (induction xs) (simp_all add: array_sort_def insert_by_descending sort_key_def)

lemma array_sort_mset: "mset (array_sort (\<lambda>a b. f b - f a) xs) = mset xs"
  for f :: "'a \<Rightarrow> real"
  by (simp add: array_sort_descending)

lemma array_sort_sorted:
  "sorted_wrt (\<lambda>a b. f a \<ge> f b) (array_sort (\<lambda>a b. f b - f a) xs)"
  for f :: "'a \<Rightarrow> real"
proof -
  have "sorted (map (\<lambda>t. - f t) (array_sort (\<lambda>a b. f b - f a) xs))"
    unfolding array_sort_descending by (rule sorted_sort_key)
  then show ?thesis
    by (simp add: sorted_map sorted_wrt_iff_nth_less) 
qed

text \<open>The change that a timeframe selects: \<^verbatim>\<open>"1h"\<close> and \<^verbatim>\<open>"7d"\<close> select their own fields, a
  name of an inherited member selects no field, and every other string, \<^verbatim>\<open>"24h"\<close> among
  them, selects the 24h field.\<close>

lemma coin_change_selected:
  "coin_change coin (changeField timeframe) =
     (if timeframe = ''1h'' then coin_price_change_percentage_1h_in_currency coin
      else if timeframe = ''7d'' then coin_price_change_percentage_7d_in_currency coin
      else if timeframe \<in> set object_prototype_members then JUndefined
      else coin_price_change_percentage_24h_in_currency coin)"
proof -
  consider (h1) "timeframe = ''1h''" | (d7) "timeframe = ''7d''" | (h24) "timeframe = ''24h''"
    | (other) "timeframe \<noteq> ''1h''" "timeframe \<noteq> ''7d''" "timeframe \<noteq> ''24h''"
    by blast
  then show ?thesis
  proof cases
    case h1
    then show ?thesis
      by (simp add: changeField_def obj_get_def timeframeMappings_def coin_change_def coin_field_def)
  next
    case d7
    then show ?thesis
      by (simp add: changeField_def obj_get_def timeframeMappings_def coin_change_def coin_field_def)
  next
    case h24
    then show ?thesis
      by (simp add: changeField_def obj_get_def timeframeMappings_def coin_change_def coin_field_def
          object_prototype_members_def)
  next
    case other
    then have "map_of timeframeMappings timeframe = None"
      by (simp add: timeframeMappings_def)
    then show ?thesis
      using other by (simp add: changeField_def obj_get_def coin_change_def coin_field_def)
  qed
qed

lemma js_ge_Fin_iff:
  "js_ge (Fin a) threshold \<longleftrightarrow>
     (\<exists>t. threshold = Fin t \<and> t \<le> a) \<or> threshold = NegZero \<and> 0 \<le> a \<or> threshold = NegInf"
  by (cases threshold) (auto simp: js_ge_def)

lemma has_momentum_iff:
  "has_momentum threshold timeframe coin \<longleftrightarrow>
     (\<exists>c. coin_change coin (changeField timeframe) = JNum c
        \<and> ((\<exists>t. threshold = Fin t \<and> t \<le> \<bar>c\<bar>) \<or> threshold = NegZero \<or> threshold = NegInf))"
  by (auto simp: has_momentum_def js_ge_Fin_iff split: jsnum.splits)

text \<open>
  Claim C2. For every snapshot, threshold and timeframe the scan answers, and: the
  tokens found are exactly those of the coins whose change over the selected timeframe
  is a number (not null, not absent) of absolute value at least the threshold; they
  are sorted by momentum score, descending; the answer carries the first ten of them,
  so at most ten, with \<open>score[i] \<ge> score[i+1]\<close> for neighbours; \<open>momentumDetected\<close> holds
  exactly when some coin was kept; and the summary counts all coins kept, before the
  cut to ten. The threshold is the value that \<^verbatim>\<open>parseFloat\<close> gave: every absolute value
  is at least a threshold of minus infinity or of negative zero, and none is at least
  a threshold of plus infinity or NaN. The selected change is the 1h field for
  \<^verbatim>\<open>"1h"\<close>, the 7d field for \<^verbatim>\<open>"7d"\<close>, nothing for a timeframe that names an inherited member,
  and the 24h field for \<^verbatim>\<open>"24h"\<close> and for any other string.
\<close>

theorem scan_result:
  fixes threshold timeframeParam coins
  defines "timeframe \<equiv> param_or timeframeParam ''24h''"
  defines "kept \<equiv> filter
      (\<lambda>coin. \<exists>c t.
          (if timeframe = ''1h'' then coin_price_change_percentage_1h_in_currency coin
           else if timeframe = ''7d'' then coin_price_change_percentage_7d_in_currency coin
           else if timeframe \<in> set object_prototype_members then JUndefined
           else coin_price_change_percentage_24h_in_currency coin) = JNum c
          \<and> (threshold = Fin t \<and> t \<le> \<bar>c\<bar> \<or> threshold = NegZero \<or> threshold = NegInf)) coins"
  defines "found \<equiv> tokensWithMomentum threshold timeframe coins"
  shows "\<exists>r. scan threshold timeframeParam (Body coins) = Inr r
       \<and> mset found = mset (map (to_momentum_token timeframe) kept)
       \<and> sorted_wrt (\<lambda>a b. mt_momentumScore a \<ge> mt_momentumScore b) found
       \<and> tokens r = take 10 found
       \<and> length (tokens r) \<le> 10
       \<and> (\<forall>i. Suc i < length (tokens r) \<longrightarrow>
             mt_momentumScore (tokens r ! i) \<ge> mt_momentumScore (tokens r ! Suc i))
       \<and> (momentumDetected r \<longleftrightarrow> kept \<noteq> [])
       \<and> fst (scan_summary r) = length kept"
proof -
  define r where "r = \<lparr>scan_threshold = threshold, scan_timeframe = timeframe,
      momentumDetected = (length found > 0), tokens = take 10 found,
      scan_summary = (length found, threshold, timeframe)\<rparr>"
  have run: "scan threshold timeframeParam (Body coins) = Inr r"
    by (simp add: scan_def Let_def r_def found_def timeframe_def)
  have kept: "kept = filter (has_momentum threshold timeframe) coins"
  proof -
    have selected: "has_momentum threshold timeframe coin \<longleftrightarrow>
        (\<exists>c t.
          (if timeframe = ''1h'' then coin_price_change_percentage_1h_in_currency coin
           else if timeframe = ''7d'' then coin_price_change_percentage_7d_in_currency coin
           else if timeframe \<in> set object_prototype_members then JUndefined
           else coin_price_change_percentage_24h_in_currency coin) = JNum c
          \<and> (threshold = Fin t \<and> t \<le> \<bar>c\<bar> \<or> threshold = NegZero \<or> threshold = NegInf))"
      for coin
      unfolding has_momentum_iff coin_change_selected by blast
    show ?thesis
      unfolding kept_def by (rule filter_cong) (rule refl, rule sym, rule selected)
  qed
  have perm: "mset found = mset (map (to_momentum_token timeframe) kept)"
    unfolding found_def tokensWithMomentum_def kept by (rule array_sort_mset)
  have desc: "sorted_wrt (\<lambda>a b. mt_momentumScore a \<ge> mt_momentumScore b) found"
    unfolding found_def tokensWithMomentum_def by (rule array_sort_sorted)
  have len: "length found = length kept"
    using perm by (metis size_mset length_map)
  have top: "tokens r = take 10 found"
    by (simp add: r_def)
  have atmost: "length (tokens r) \<le> 10"
    unfolding top by simp
  have "sorted_wrt (\<lambda>a b. mt_momentumScore a \<ge> mt_momentumScore b) (tokens r)"
    unfolding top using desc by (rule sorted_wrt_take)
  then have adjacent: "\<forall>i. Suc i < length (tokens r) \<longrightarrow>
      mt_momentumScore (tokens r ! i) \<ge> mt_momentumScore (tokens r ! Suc i)"
    by (simp add: sorted_wrt_iff_nth_less)
  have detected: "momentumDetected r \<longleftrightarrow> kept \<noteq> []"
    using len by (simp add: r_def)
  have summary: "fst (scan_summary r) = length kept"
    using len by (simp add: r_def)
  from run perm desc top atmost adjacent detected summary show ?thesis
    by blast
qed

lemma timeframe_members:
  "''24h'' \<notin> set object_prototype_members" "''constructor'' \<in> set object_prototype_members"
  by (simp_all add: object_prototype_members_def)

lemmas scan_eval = scan_def Let_def tokensWithMomentum_def has_momentum_def js_ge_def coin_change_selected
  timeframe_members to_momentum_token_def calculateMomentumScore_def
  math_round_def array_sort_def toUpperCase_def upper_char_def getAvailableChains_def
  chainMappings_def determineTrend_def

text \<open>The theorem at a snapshot of three coins with threshold 5, for three requests. With
  the timeframe \<^verbatim>\<open>"1h"\<close> the coins kept are those with a 1h change of at least 5 in
  absolute value (ETH and SOL; BTC, whose 24h change is 6, is not kept), the higher
  score first. With no timeframe the 24h changes decide (BTC and SOL). With the
  timeframe \<^verbatim>\<open>"constructor"\<close> no coin is kept. With the threshold minus infinity and
  the timeframe \<^verbatim>\<open>"7d"\<close> every coin with a 7d change is kept (BTC and SOL; the 7d change
  of ETH is null).\<close>

theorem scan_result_witness:
  "(\<exists>r. scan (Fin 5) (Some ''1h'')
      (Body [\<lparr>coin_symbol = ''btc'', coin_name = ''Bitcoin'', coin_current_price = JNum 50000,
              coin_total_volume = JNum 30000000000, coin_market_cap = JNum 1000000000000,
              coin_price_change_percentage_24h = JNum 6,
              coin_price_change_percentage_1h_in_currency = JNum 1,
              coin_price_change_percentage_24h_in_currency = JNum 6,
              coin_price_change_percentage_7d_in_currency = JNum 10\<rparr>,
             \<lparr>coin_symbol = ''eth'', coin_name = ''Ethereum'', coin_current_price = JNum 3000,
              coin_total_volume = JNum 15000000000, coin_market_cap = JNum 400000000000,
              coin_price_change_percentage_24h = JNum 2,
              coin_price_change_percentage_1h_in_currency = JNum (55 / 10),
              coin_price_change_percentage_24h_in_currency = JNum 2,
              coin_price_change_percentage_7d_in_currency = JNull\<rparr>,
             \<lparr>coin_symbol = ''sol'', coin_name = ''Solana'', coin_current_price = JNum 150,
              coin_total_volume = JNum 3000000000, coin_market_cap = JNum 80000000000,
              coin_price_change_percentage_24h = JNum (- 9),
              coin_price_change_percentage_1h_in_currency = JNum (- 7),
              coin_price_change_percentage_24h_in_currency = JNum (- 9),
              coin_price_change_percentage_7d_in_currency = JNum 4\<rparr>]) = Inr r
     \<and> map mt_token (tokens r) = [''SOL'', ''ETH'']
     \<and> map mt_momentumScore (tokens r) = [69, 505 / 10]
     \<and> mt_momentumScore (tokens r ! 0) \<ge> mt_momentumScore (tokens r ! Suc 0)
     \<and> momentumDetected r
     \<and> fst (scan_summary r) = 2)
   \<and> (\<exists>r. scan (Fin 5) None
      (Body [\<lparr>coin_symbol = ''btc'', coin_name = ''Bitcoin'', coin_current_price = JNum 50000,
              coin_total_volume = JNum 30000000000, coin_market_cap = JNum 1000000000000,
              coin_price_change_percentage_24h = JNum 6,
              coin_price_change_percentage_1h_in_currency = JNum 1,
              coin_price_change_percentage_24h_in_currency = JNum 6,
              coin_price_change_percentage_7d_in_currency = JNum 10\<rparr>,
             \<lparr>coin_symbol = ''eth'', coin_name = ''Ethereum'', coin_current_price = JNum 3000,
              coin_total_volume = JNum 15000000000, coin_market_cap = JNum 400000000000,
              coin_price_change_percentage_24h = JNum 2,
              coin_price_change_percentage_1h_in_currency = JNum (55 / 10),
              coin_price_change_percentage_24h_in_currency = JNum 2,
              coin_price_change_percentage_7d_in_currency = JNull\<rparr>,
             \<lparr>coin_symbol = ''sol'', coin_name = ''Solana'', coin_current_price = JNum 150,
              coin_total_volume = JNum 3000000000, coin_market_cap = JNum 80000000000,
              coin_price_change_percentage_24h = JNum (- 9),
              coin_price_change_percentage_1h_in_currency = JNum (- 7),
              coin_price_change_percentage_24h_in_currency = JNum (- 9),
              coin_price_change_percentage_7d_in_currency = JNum 4\<rparr>]) = Inr r
     \<and> map mt_token (tokens r) = [''SOL'', ''BTC'']
     \<and> momentumDetected r
     \<and> fst (scan_summary r) = 2)
   \<and> (\<exists>r. scan (Fin 5) (Some ''constructor'')
      (Body [\<lparr>coin_symbol = ''btc'', coin_name = ''Bitcoin'', coin_current_price = JNum 50000,
              coin_total_volume = JNum 30000000000, coin_market_cap = JNum 1000000000000,
              coin_price_change_percentage_24h = JNum 6,
              coin_price_change_percentage_1h_in_currency = JNum 1,
              coin_price_change_percentage_24h_in_currency = JNum 6,
              coin_price_change_percentage_7d_in_currency = JNum 10\<rparr>,
             \<lparr>coin_symbol = ''eth'', coin_name = ''Ethereum'', coin_current_price = JNum 3000,
              coin_total_volume = JNum 15000000000, coin_market_cap = JNum 400000000000,
              coin_price_change_percentage_24h = JNum 2,
              coin_price_change_percentage_1h_in_currency = JNum (55 / 10),
              coin_price_change_percentage_24h_in_currency = JNum 2,
              coin_price_change_percentage_7d_in_currency = JNull\<rparr>,
             \<lparr>coin_symbol = ''sol'', coin_name = ''Solana'', coin_current_price = JNum 150,
              coin_total_volume = JNum 3000000000, coin_market_cap = JNum 80000000000,
              coin_price_change_percentage_24h = JNum (- 9),
              coin_price_change_percentage_1h_in_currency = JNum (- 7),
              coin_price_change_percentage_24h_in_currency = JNum (- 9),
              coin_price_change_percentage_7d_in_currency = JNum 4\<rparr>]) = Inr r
     \<and> tokens r = []
     \<and> \<not> momentumDetected r
     \<and> fst (scan_summary r) = 0)
   \<and> (\<exists>r. scan NegInf (Some ''7d'')
      (Body [\<lparr>coin_symbol = ''btc'', coin_name = ''Bitcoin'', coin_current_price = JNum 50000,
              coin_total_volume = JNum 30000000000, coin_market_cap = JNum 1000000000000,
              coin_price_change_percentage_24h = JNum 6,
              coin_price_change_percentage_1h_in_currency = JNum 1,
              coin_price_change_percentage_24h_in_currency = JNum 6,
              coin_price_change_percentage_7d_in_currency = JNum 10\<rparr>,
             \<lparr>coin_symbol = ''eth'', coin_name = ''Ethereum'', coin_current_price = JNum 3000,
              coin_total_volume = JNum 15000000000, coin_market_cap = JNum 400000000000,
              coin_price_change_percentage_24h = JNum 2,
              coin_price_change_percentage_1h_in_currency = JNum (55 / 10),
              coin_price_change_percentage_24h_in_currency = JNum 2,
              coin_price_change_percentage_7d_in_currency = JNull\<rparr>,
             \<lparr>coin_symbol = ''sol'', coin_name = ''Solana'', coin_current_price = JNum 150,
              coin_total_volume = JNum 3000000000, coin_market_cap = JNum 80000000000,
              coin_price_change_percentage_24h = JNum (- 9),
              coin_price_change_percentage_1h_in_currency = JNum (- 7),
              coin_price_change_percentage_24h_in_currency = JNum (- 9),
              coin_price_change_percentage_7d_in_currency = JNum 4\<rparr>]) = Inr r
     \<and> map mt_token (tokens r) = [''SOL'', ''BTC'']
     \<and> momentumDetected r
     \<and> fst (scan_summary r) = 2)"
proof -
  let ?coins = "[\<lparr>coin_symbol = ''btc'', coin_name = ''Bitcoin'', coin_current_price = JNum 50000,
              coin_total_volume = JNum 30000000000, coin_market_cap = JNum 1000000000000,
              coin_price_change_percentage_24h = JNum 6,
              coin_price_change_percentage_1h_in_currency = JNum 1,
              coin_price_change_percentage_24h_in_currency = JNum 6,
              coin_price_change_percentage_7d_in_currency = JNum 10\<rparr>,
             \<lparr>coin_symbol = ''eth'', coin_name = ''Ethereum'', coin_current_price = JNum 3000,
              coin_total_volume = JNum 15000000000, coin_market_cap = JNum 400000000000,
              coin_price_change_percentage_24h = JNum 2,
              coin_price_change_percentage_1h_in_currency = JNum (55 / 10),
              coin_price_change_percentage_24h_in_currency = JNum 2,
              coin_price_change_percentage_7d_in_currency = JNull\<rparr>,
             \<lparr>coin_symbol = ''sol'', coin_name = ''Solana'', coin_current_price = JNum 150,
              coin_total_volume = JNum 3000000000, coin_market_cap = JNum 80000000000,
              coin_price_change_percentage_24h = JNum (- 9),
              coin_price_change_percentage_1h_in_currency = JNum (- 7),
              coin_price_change_percentage_24h_in_currency = JNum (- 9),
              coin_price_change_percentage_7d_in_currency = JNum 4\<rparr>]"
  have hour: "\<exists>r. scan (Fin 5) (Some ''1h'') (Body ?coins) = Inr r
     \<and> map mt_token (tokens r) = [''SOL'', ''ETH'']
     \<and> map mt_momentumScore (tokens r) = [69, 505 / 10]
     \<and> mt_momentumScore (tokens r ! 0) \<ge> mt_momentumScore (tokens r ! Suc 0)
     \<and> momentumDetected r
     \<and> fst (scan_summary r) = 2"
  proof -
    obtain r where run: "scan (Fin 5) (Some ''1h'') (Body ?coins) = Inr r"
      and adjacent: "\<forall>i. Suc i < length (tokens r) \<longrightarrow>
               mt_momentumScore (tokens r ! i) \<ge> mt_momentumScore (tokens r ! Suc i)"
      using scan_result [of "Fin 5" "Some ''1h''" ?coins] by (elim exE conjE)
    have names: "map mt_token (tokens r) = [''SOL'', ''ETH'']"
      and scores: "map mt_momentumScore (tokens r) = [69, 505 / 10]"
      and detected: "momentumDetected r"
      and summary: "fst (scan_summary r) = 2"
      using run by (auto simp: scan_eval)
    have "length (tokens r) = 2"
      using names by (metis length_map length_Cons list.size(3) numeral_2_eq_2)
    then have "mt_momentumScore (tokens r ! 0) \<ge> mt_momentumScore (tokens r ! Suc 0)"
      using adjacent by simp
    with run names scores detected summary show ?thesis
      by (intro exI [of _ r] conjI) assumption+
  qed
  have day: "\<exists>r. scan (Fin 5) None (Body ?coins) = Inr r
     \<and> map mt_token (tokens r) = [''SOL'', ''BTC'']
     \<and> momentumDetected r
     \<and> fst (scan_summary r) = 2"
  proof -
    obtain r where run: "scan (Fin 5) None (Body ?coins) = Inr r"
      using scan_result [of "Fin 5" None ?coins] by (elim exE conjE)
    have names: "map mt_token (tokens r) = [''SOL'', ''BTC'']"
      and detected: "momentumDetected r"
      and summary: "fst (scan_summary r) = 2"
      using run by (auto simp: scan_eval)
    with run show ?thesis
      by (intro exI [of _ r] conjI) assumption+
  qed
  have inherited: "\<exists>r. scan (Fin 5) (Some ''constructor'') (Body ?coins) = Inr r
     \<and> tokens r = []
     \<and> \<not> momentumDetected r
     \<and> fst (scan_summary r) = 0"
  proof -
    obtain r where run: "scan (Fin 5) (Some ''constructor'') (Body ?coins) = Inr r"
      and detected: "momentumDetected r \<longleftrightarrow>
        filter (\<lambda>coin. \<exists>c t.
          (if param_or (Some ''constructor'') ''24h'' = ''1h''
             then coin_price_change_percentage_1h_in_currency coin
           else if param_or (Some ''constructor'') ''24h'' = ''7d''
             then coin_price_change_percentage_7d_in_currency coin
           else if param_or (Some ''constructor'') ''24h'' \<in> set object_prototype_members then JUndefined
           else coin_price_change_percentage_24h_in_currency coin) = JNum c
          \<and> (Fin 5 = Fin t \<and> t \<le> \<bar>c\<bar> \<or> Fin 5 = NegZero \<or> Fin 5 = NegInf)) ?coins \<noteq> []"
      and summary: "fst (scan_summary r) =
        length (filter (\<lambda>coin. \<exists>c t.
          (if param_or (Some ''constructor'') ''24h'' = ''1h''
             then coin_price_change_percentage_1h_in_currency coin
           else if param_or (Some ''constructor'') ''24h'' = ''7d''
             then coin_price_change_percentage_7d_in_currency coin
           else if param_or (Some ''constructor'') ''24h'' \<in> set object_prototype_members then JUndefined
           else coin_price_change_percentage_24h_in_currency coin) = JNum c
          \<and> (Fin 5 = Fin t \<and> t \<le> \<bar>c\<bar> \<or> Fin 5 = NegZero \<or> Fin 5 = NegInf)) ?coins)"
      using scan_result [of "Fin 5" "Some ''constructor''" ?coins] by (elim exE conjE)
    have member: "param_or (Some ''constructor'') ''24h'' \<in> set object_prototype_members"
      by (simp add: timeframe_members)
    have none: "\<not> momentumDetected r" and zero: "fst (scan_summary r) = 0"
      using detected summary member by simp_all
    have "tokens r = []"
      using run by (auto simp: scan_eval)
    with run none zero show ?thesis
      by (intro exI [of _ r] conjI) assumption+
  qed
  have week: "\<exists>r. scan NegInf (Some ''7d'') (Body ?coins) = Inr r
     \<and> map mt_token (tokens r) = [''SOL'', ''BTC'']
     \<and> momentumDetected r
     \<and> fst (scan_summary r) = 2"
  proof -
    obtain r where run: "scan NegInf (Some ''7d'') (Body ?coins) = Inr r"
      using scan_result [of NegInf "Some ''7d''" ?coins] by (elim exE conjE)
    have names: "map mt_token (tokens r) = [''SOL'', ''BTC'']"
      and detected: "momentumDetected r"
      and summary: "fst (scan_summary r) = 2"
      using run by (auto simp: scan_eval)
    with run show ?thesis
      by (intro exI [of _ r] conjI) assumption+
  qed
  from hour day inherited week show ?thesis
    by (intro conjI)
qed

text \<open>
  Claim C7. Two snapshots of a coin that differ only in the 24h change, with changes
  \<open>c\<close> and \<open>c'\<close> that are numbers and \<open>\<bar>c\<bar> \<le> \<bar>c'\<bar>\<close>, have momentum scores in the same
  order, rounding to one decimal included. The scorer reads the field
  \<^verbatim>\<open>price_change_percentage_24h\<close>; the field \<^verbatim>\<open>price_change_percentage_24h_in_currency\<close>, which
  it does not read, may differ as well.
\<close>

theorem calculateMomentumScore_monotone:
  assumes "\<bar>c\<bar> \<le> \<bar>c'\<bar>"
  shows "calculateMomentumScore
           (coin\<lparr>coin_price_change_percentage_24h := JNum c,
                 coin_price_change_percentage_24h_in_currency := x\<rparr>)
         \<le> calculateMomentumScore
           (coin\<lparr>coin_price_change_percentage_24h := JNum c',
                 coin_price_change_percentage_24h_in_currency := x'\<rparr>)"
proof -
  let ?rest = "\<bar>or0 (coin_price_change_percentage_1h_in_currency coin)\<bar> * 3
      + min ((or0 (coin_total_volume coin) / 1000000000) * 10) 20
      + min ((or0 (coin_market_cap coin) / 1000000000) * 2) 10"
  have "(\<bar>c\<bar> * 2 + ?rest) * 10 \<le> (\<bar>c'\<bar> * 2 + ?rest) * 10"
    using assms by simp
  then have "math_round ((\<bar>c\<bar> * 2 + ?rest) * 10) \<le> math_round ((\<bar>c'\<bar> * 2 + ?rest) * 10)"
    by (rule math_round_mono)
  then have "math_round ((\<bar>c\<bar> * 2 + ?rest) * 10) / 10 \<le> math_round ((\<bar>c'\<bar> * 2 + ?rest) * 10) / 10"
    by (simp add: divide_right_mono)
  then show ?thesis
    by (simp add: calculateMomentumScore_def Let_def add.assoc)
qed

text \<open>The theorem at the changes \<open>-3\<close> and \<open>3.04\<close>: the scores are 42 and 42.1.\<close>

theorem calculateMomentumScore_monotone_witness:
  "\<bar>- 3 :: real\<bar> \<le> \<bar>304 / 100\<bar>
   \<and> calculateMomentumScore
       \<lparr>coin_symbol = ''sol'', coin_name = ''Solana'', coin_current_price = JNum 150,
        coin_total_volume = JNum 3000000000, coin_market_cap = JNum 80000000000,
        coin_price_change_percentage_24h = JNum (- 3),
        coin_price_change_percentage_1h_in_currency = JNum (- 2),
        coin_price_change_percentage_24h_in_currency = JNum (- 3),
        coin_price_change_percentage_7d_in_currency = JNum 4\<rparr> = 42
   \<and> calculateMomentumScore
       \<lparr>coin_symbol = ''sol'', coin_name = ''Solana'', coin_current_price = JNum 150,
        coin_total_volume = JNum 3000000000, coin_market_cap = JNum 80000000000,
        coin_price_change_percentage_24h = JNum (304 / 100),
        coin_price_change_percentage_1h_in_currency = JNum (- 2),
        coin_price_change_percentage_24h_in_currency = JNum (304 / 100),
        coin_price_change_percentage_7d_in_currency = JNum 4\<rparr> = 421 / 10
   \<and> calculateMomentumScore
       \<lparr>coin_symbol = ''sol'', coin_name = ''Solana'', coin_current_price = JNum 150,
        coin_total_volume = JNum 3000000000, coin_market_cap = JNum 80000000000,
        coin_price_change_percentage_24h = JNum (- 3),
        coin_price_change_percentage_1h_in_currency = JNum (- 2),
        coin_price_change_percentage_24h_in_currency = JNum (- 3),
        coin_price_change_percentage_7d_in_currency = JNum 4\<rparr>
     \<le> calculateMomentumScore
       \<lparr>coin_symbol = ''sol'', coin_name = ''Solana'', coin_current_price = JNum 150,
        coin_total_volume = JNum 3000000000, coin_market_cap = JNum 80000000000,
        coin_price_change_percentage_24h = JNum (304 / 100),
        coin_price_change_percentage_1h_in_currency = JNum (- 2),
        coin_price_change_percentage_24h_in_currency = JNum (304 / 100),
        coin_price_change_percentage_7d_in_currency = JNum 4\<rparr>"
proof -
  let ?coin = "\<lparr>coin_symbol = ''sol'', coin_name = ''Solana'', coin_current_price = JNum 150,
        coin_total_volume = JNum 3000000000, coin_market_cap = JNum 80000000000,
        coin_price_change_percentage_24h = JNum 0,
        coin_price_change_percentage_1h_in_currency = JNum (- 2),
        coin_price_change_percentage_24h_in_currency = JNum 0,
        coin_price_change_percentage_7d_in_currency = JNum 4\<rparr>"
  have le: "\<bar>- 3 :: real\<bar> \<le> \<bar>304 / 100\<bar>"
    by simp
  have low: "calculateMomentumScore
       \<lparr>coin_symbol = ''sol'', coin_name = ''Solana'', coin_current_price = JNum 150,
        coin_total_volume = JNum 3000000000, coin_market_cap = JNum 80000000000,
        coin_price_change_percentage_24h = JNum (- 3),
        coin_price_change_percentage_1h_in_currency = JNum (- 2),
        coin_price_change_percentage_24h_in_currency = JNum (- 3),
        coin_price_change_percentage_7d_in_currency = JNum 4\<rparr> = 42"
    by (simp add: calculateMomentumScore_def math_round_def)
  have high: "calculateMomentumScore
       \<lparr>coin_symbol = ''sol'', coin_name = ''Solana'', coin_current_price = JNum 150,
        coin_total_volume = JNum 3000000000, coin_market_cap = JNum 80000000000,
        coin_price_change_percentage_24h = JNum (304 / 100),
        coin_price_change_percentage_1h_in_currency = JNum (- 2),
        coin_price_change_percentage_24h_in_currency = JNum (304 / 100),
        coin_price_change_percentage_7d_in_currency = JNum 4\<rparr> = 421 / 10"
    by (simp add: calculateMomentumScore_def math_round_def)
  show ?thesis
    using calculateMomentumScore_monotone [OF le, where coin = ?coin and x = "JNum (- 3)" and x' = "JNum (304 / 100)"]
      le low high
    by simp
qed

end
